theory Spec2Isabelle
  imports Complex_Main
begin

section \<open>Data model\<close>

text \<open>
  The pose estimator delivers, per frame, an array of landmarks; an entry may be
  \<^verbatim>\<open>undefined\<close>.  JavaScript numbers are modelled as exact reals, timestamps
  (\<^verbatim>\<open>Date.now()\<close>, whole milliseconds) as integers, and an array read
  \<^verbatim>\<open>landmarks[i]\<close> as the application of a partial map, so that a missing entry is
  \<open>None\<close> wherever the source tests \<^verbatim>\<open>if (point)\<close>.
\<close>

datatype side = Left | Right

record landmark =
  lm_x :: real
  lm_y :: real
  visibility :: real

type_synonym landmarks = "nat \<Rightarrow> landmark option"

record formCheck =
  condition :: string
  errorMessage :: string
  keypoints :: "nat list"

record targetRanges =
  startingPosition :: "real \<times> real"
  targetRange :: "real \<times> real"
  optimalPeak :: "real \<times> real"

record repThresholds =
  liftingMin :: real
  loweringMax :: real
  restMax :: real

text \<open>
  \<^verbatim>\<open>ExerciseData\<close> / \<^verbatim>\<open>ExerciseResponse\<close>.  The fields \<^verbatim>\<open>description\<close>,
  \<^verbatim>\<open>steps\<close> and the display name of the primary angle are only rendered and are left
  out; \<open>anglePoints\<close> is \<^verbatim>\<open>angleCalculations.primaryAngle.points\<close>.
\<close>

record ExerciseData =
  exerciseName :: string
  targetKeypoints :: "nat list"
  anglePoints :: "nat list"
  ranges :: targetRanges
  formChecks :: "formCheck list"
  thresholds :: repThresholds

section \<open>String helpers of the host language\<close>

text \<open>\<^verbatim>\<open>toLowerCase\<close> on the ASCII letters; every other character is kept.\<close>

definition lowerChar :: "char \<Rightarrow> char" where
  "lowerChar c =
     (if c = CHR ''A'' then CHR ''a''
      else if c = CHR ''B'' then CHR ''b''
      else if c = CHR ''C'' then CHR ''c''
      else if c = CHR ''D'' then CHR ''d''
      else if c = CHR ''E'' then CHR ''e''
      else if c = CHR ''F'' then CHR ''f''
      else if c = CHR ''G'' then CHR ''g''
      else if c = CHR ''H'' then CHR ''h''
      else if c = CHR ''I'' then CHR ''i''
      else if c = CHR ''J'' then CHR ''j''
      else if c = CHR ''K'' then CHR ''k''
      else if c = CHR ''L'' then CHR ''l''
      else if c = CHR ''M'' then CHR ''m''
      else if c = CHR ''N'' then CHR ''n''
      else if c = CHR ''O'' then CHR ''o''
      else if c = CHR ''P'' then CHR ''p''
      else if c = CHR ''Q'' then CHR ''q''
      else if c = CHR ''R'' then CHR ''r''
      else if c = CHR ''S'' then CHR ''s''
      else if c = CHR ''T'' then CHR ''t''
      else if c = CHR ''U'' then CHR ''u''
      else if c = CHR ''V'' then CHR ''v''
      else if c = CHR ''W'' then CHR ''w''
      else if c = CHR ''X'' then CHR ''x''
      else if c = CHR ''Y'' then CHR ''y''
      else if c = CHR ''Z'' then CHR ''z''
      else c)"

definition toLowerCase :: "string \<Rightarrow> string" where
  "toLowerCase s = map lowerChar s"

fun startsWith :: "string \<Rightarrow> string \<Rightarrow> bool" where
  "startsWith s [] = True"
| "startsWith [] (p # ps) = False"
| "startsWith (c # cs) (p # ps) = (c = p \<and> startsWith cs ps)"

fun includes_str :: "string \<Rightarrow> string \<Rightarrow> bool" where
  "includes_str [] sub = (sub = [])"
| "includes_str (c # cs) sub = (startsWith (c # cs) sub \<or> includes_str cs sub)"

section \<open>Angle at a joint\<close>

text \<open>
  \<^verbatim>\<open>Math.atan2(y, x)\<close> over the reals: the angle of the point \<open>(x, y)\<close> in
  \<open>(-\<pi>, \<pi>]\<close>, with \<open>atan2 0 0 = 0\<close>.
\<close>

definition atan2 :: "real \<Rightarrow> real \<Rightarrow> real" where
  "atan2 y x =
     (if 0 < x then arctan (y / x)
      else if x < 0 then (if 0 \<le> y then arctan (y / x) + pi else arctan (y / x) - pi)
      else if 0 < y then pi / 2
      else if y < 0 then - (pi / 2)
      else 0)"

definition calculateAngle :: "landmark \<Rightarrow> landmark \<Rightarrow> landmark \<Rightarrow> real" where
  "calculateAngle a b c =
     (let radians = atan2 (lm_y c - lm_y b) (lm_x c - lm_x b)
                    - atan2 (lm_y a - lm_y b) (lm_x a - lm_x b);
          angle = \<bar>radians * 180 / pi\<bar>
      in if angle > 180 then 360 - angle else angle)"

section \<open>Side detection\<close>

text \<open>
  \<^verbatim>\<open>detectActiveArm\<close>.  The React state \<^verbatim>\<open>detectedArm\<close> is read from the closure
  of the effect and is a parameter here.  \<open>movementScore\<close> is the expression bound to
  \<^verbatim>\<open>leftMovementScore\<close> / \<^verbatim>\<open>rightMovementScore\<close>; \<open>armScores\<close> is the pair of
  them, \<open>None\<close> when one of the six arm landmarks is missing; \<open>chooseArm\<close> is the
  comparison that follows.
\<close>

definition movementScore :: "landmark \<Rightarrow> landmark \<Rightarrow> landmark \<Rightarrow> landmark \<Rightarrow> real" where
  "movementScore hip shoulder elbow wrist =
     (let shoulderAngle = calculateAngle hip shoulder elbow;
          armHeight = lm_y shoulder - lm_y wrist;
          armExtension = \<bar>lm_x wrist - lm_x shoulder\<bar>
      in armHeight * 3 + armExtension * 2 + \<bar>shoulderAngle - 20\<bar>)"

definition chooseArm :: "side \<Rightarrow> real \<Rightarrow> real \<Rightarrow> side" where
  "chooseArm detectedArm leftMovementScore rightMovementScore =
     (let switchThreshold = 0.15;
          scoreDifference = \<bar>leftMovementScore - rightMovementScore\<bar>;
          averageScore = (leftMovementScore + rightMovementScore) / 2
      in if scoreDifference > averageScore * switchThreshold
         then (if rightMovementScore > leftMovementScore then Right else Left)
         else detectedArm)"

definition orElse :: "landmark option \<Rightarrow> landmark \<Rightarrow> landmark" where
  "orElse a b = (case a of Some p \<Rightarrow> p | None \<Rightarrow> b)"

definition armScores :: "landmarks \<Rightarrow> (real \<times> real) option" where
  "armScores landmarks =
     (case landmarks 11 of None \<Rightarrow> None | Some leftShoulder \<Rightarrow>
      case landmarks 13 of None \<Rightarrow> None | Some leftElbow \<Rightarrow>
      case landmarks 15 of None \<Rightarrow> None | Some leftWrist \<Rightarrow>
      case landmarks 12 of None \<Rightarrow> None | Some rightShoulder \<Rightarrow>
      case landmarks 14 of None \<Rightarrow> None | Some rightElbow \<Rightarrow>
      case landmarks 16 of None \<Rightarrow> None | Some rightWrist \<Rightarrow>
        Some (movementScore (orElse (landmarks 23) leftShoulder) leftShoulder leftElbow leftWrist,
              movementScore (orElse (landmarks 24) rightShoulder) rightShoulder rightElbow
                rightWrist))"

definition detectActiveArm :: "side \<Rightarrow> landmarks \<Rightarrow> side" where
  "detectActiveArm detectedArm landmarks =
     (case armScores landmarks of
        None \<Rightarrow> detectedArm
      | Some (leftMovementScore, rightMovementScore) \<Rightarrow>
          chooseArm detectedArm leftMovementScore rightMovementScore)"

text \<open>
  \<^verbatim>\<open>detectActiveLeg\<close>.  \<^verbatim>\<open>landmarks[11]\<close> and \<^verbatim>\<open>landmarks[12]\<close> are read
  without a guard: when one is missing, \<^verbatim>\<open>calculateAngle\<close> throws a TypeError, which
  is the result \<open>None\<close> here.
\<close>

definition legScore :: "landmark \<Rightarrow> landmark \<Rightarrow> landmark \<Rightarrow> landmark \<Rightarrow> real" where
  "legScore shoulder hip knee ankle =
     (let hipAngle = calculateAngle shoulder hip knee;
          elevation = lm_y hip - lm_y ankle;
          extension = \<bar>lm_x knee - lm_x hip\<bar> + \<bar>lm_x ankle - lm_x knee\<bar>
      in elevation * 2 + extension + \<bar>hipAngle - 180\<bar>)"

definition chooseLeg :: "side \<Rightarrow> real \<Rightarrow> real \<Rightarrow> side" where
  "chooseLeg detectedArm leftScore rightScore =
     (let threshold = 0.3
      in if rightScore > leftScore * (1 + threshold) then Right
         else if leftScore > rightScore * (1 + threshold) then Left
         else detectedArm)"

definition detectActiveLeg :: "side \<Rightarrow> landmarks \<Rightarrow> side option" where
  "detectActiveLeg detectedArm landmarks =
     (case landmarks 23 of None \<Rightarrow> Some detectedArm | Some leftHip \<Rightarrow>
      case landmarks 25 of None \<Rightarrow> Some detectedArm | Some leftKnee \<Rightarrow>
      case landmarks 27 of None \<Rightarrow> Some detectedArm | Some leftAnkle \<Rightarrow>
      case landmarks 24 of None \<Rightarrow> Some detectedArm | Some rightHip \<Rightarrow>
      case landmarks 26 of None \<Rightarrow> Some detectedArm | Some rightKnee \<Rightarrow>
      case landmarks 28 of None \<Rightarrow> Some detectedArm | Some rightAnkle \<Rightarrow>
      case landmarks 11 of None \<Rightarrow> None | Some leftShoulder \<Rightarrow>
      case landmarks 12 of None \<Rightarrow> None | Some rightShoulder \<Rightarrow>
        Some (chooseLeg detectedArm
          (legScore leftShoulder leftHip leftKnee leftAnkle)
          (legScore rightShoulder rightHip rightKnee rightAnkle)))"

section \<open>Resolving keypoint indices to the detected side\<close>

text \<open>
  The source has no single resolver: each of \<^verbatim>\<open>analyzeArmExercise\<close>,
  \<^verbatim>\<open>analyzeLegExercise\<close> and the form-check loop of \<^verbatim>\<open>analyzeExerciseForm\<close>
  carries its own chain of \<^verbatim>\<open>if (point === n) return m\<close>.
\<close>

definition mirrorArmPoint :: "nat \<Rightarrow> nat" where
  "mirrorArmPoint point =
     (if point = 11 then 12 else if point = 13 then 14 else if point = 15 then 16
      else if point = 23 then 24 else if point = 25 then 26 else point)"

definition mirrorLegPoint :: "nat \<Rightarrow> nat" where
  "mirrorLegPoint point =
     (if point = 23 then 24 else if point = 25 then 26 else if point = 27 then 28
      else if point = 11 then 12 else point)"

definition mirrorCheckIndex :: "side \<Rightarrow> nat \<Rightarrow> nat" where
  "mirrorCheckIndex detectedArm idx =
     (if detectedArm = Right then
        (if idx = 11 then 12 else if idx = 13 then 14 else if idx = 15 then 16
         else if idx = 23 then 24 else if idx = 25 then 26 else if idx = 27 then 28
         else idx)
      else idx)"

definition adjustArmPoints :: "side \<Rightarrow> nat list \<Rightarrow> nat list" where
  "adjustArmPoints detectedArmLocal points =
     (if detectedArmLocal = Right then map mirrorArmPoint points else points)"

definition adjustLegPoints :: "side \<Rightarrow> nat list \<Rightarrow> nat list" where
  "adjustLegPoints detectedLegLocal points =
     (if detectedLegLocal = Right then map mirrorLegPoint points else points)"

definition adjustCheckKeypoints :: "side \<Rightarrow> nat list \<Rightarrow> nat list" where
  "adjustCheckKeypoints detectedArm kps = map (mirrorCheckIndex detectedArm) kps"

text \<open>
  The resolver as the specification words it, for comparison with the three above: on
  the right side the pairs 11/12, 13/14, 15/16, 23/24, 25/26, 27/28 are exchanged in both
  directions, every other index passes through; on the left side nothing changes.
\<close>

definition specMirror :: "nat \<Rightarrow> nat" where
  "specMirror i =
     (if i = 11 then 12 else if i = 12 then 11 else if i = 13 then 14 else if i = 14 then 13
      else if i = 15 then 16 else if i = 16 then 15 else if i = 23 then 24 else if i = 24 then 23
      else if i = 25 then 26 else if i = 26 then 25 else if i = 27 then 28 else if i = 28 then 27
      else i)"

definition specResolveIndices :: "nat list \<Rightarrow> side \<Rightarrow> nat list" where
  "specResolveIndices indices sd = (if sd = Right then map specMirror indices else indices)"

section \<open>Session state\<close>

text \<open>
  The mutable state of the component: the four refs, and the React state written by the
  setters called during a frame (\<open>detectedArmState\<close> is the target of
  \<^verbatim>\<open>setDetectedArm\<close>).  What the per-frame functions read of React state comes from
  the closure of the effect and is the record \<open>closure\<close>.
\<close>

record session =
  repCounterRef :: nat
  lastStateRef :: string
  hasReachedPeakRef :: bool
  lastRepTimeRef :: int
  feedback :: string
  exerciseState :: string
  repCount :: nat
  armAngle :: int
  isCorrectForm :: "bool option"
  detectedArmState :: side

record closure =
  cl_exerciseStarted :: bool
  cl_detectedArm :: side
  cl_currentExercise :: "ExerciseData option"

section \<open>Feedback texts\<close>

text \<open>
  Strings are lists of bytes.  The source starts its messages with a pictograph (check
  mark, chart, flag, warning sign); each is given here by its UTF-8 bytes.  The number in
  the rep-completed message is rendered in decimal.
\<close>

definition emojiCheck :: string where
  "emojiCheck = [CHR 0xE2, CHR 0x9C, CHR 0x85]"

definition emojiChart :: string where
  "emojiChart = [CHR 0xF0, CHR 0x9F, CHR 0x93, CHR 0x88]"

definition emojiFlag :: string where
  "emojiFlag = [CHR 0xF0, CHR 0x9F, CHR 0x8F, CHR 0x81]"

definition emojiWarning :: string where
  "emojiWarning = [CHR 0xE2, CHR 0x9A, CHR 0xA0, CHR 0xEF, CHR 0xB8, CHR 0x8F]"

definition digitChar :: "nat \<Rightarrow> char" where
  "digitChar d =
     (if d = 0 then CHR ''0'' else if d = 1 then CHR ''1'' else if d = 2 then CHR ''2''
      else if d = 3 then CHR ''3'' else if d = 4 then CHR ''4'' else if d = 5 then CHR ''5''
      else if d = 6 then CHR ''6'' else if d = 7 then CHR ''7'' else if d = 8 then CHR ''8''
      else CHR ''9'')"

fun numToString :: "nat \<Rightarrow> string" where
  "numToString n =
     (if n < 10 then [digitChar n]
      else numToString (n div 10) @ [digitChar (n mod 10)])"

declare numToString.simps [simp del]

definition msgNotStarted :: string where
  "msgNotStarted =
     ''Click '' @ [CHR 0x22] @ ''Start Exercise'' @ [CHR 0x22]
       @ '' to begin tracking your movements''"

definition msgWarning :: "formCheck \<Rightarrow> string" where
  "msgWarning check = emojiWarning @ '' '' @ errorMessage check"

section \<open>Per-frame analysis\<close>

definition nameHas :: "ExerciseData \<Rightarrow> string \<Rightarrow> bool" where
  "nameHas exercise w = includes_str (toLowerCase (exerciseName exercise)) w"

definition isLiftingExercise :: "ExerciseData \<Rightarrow> bool" where
  "isLiftingExercise exercise =
     (nameHas exercise ''abduction'' \<or> nameHas exercise ''flexion''
      \<or> nameHas exercise ''raise'' \<or> nameHas exercise ''extension'')"

definition isCurlingExercise :: "ExerciseData \<Rightarrow> bool" where
  "isCurlingExercise exercise = (nameHas exercise ''curl'' \<or> nameHas exercise ''bicep'')"

definition isLegExercise :: "ExerciseData \<Rightarrow> bool" where
  "isLegExercise exercise =
     (nameHas exercise ''squat'' \<or> nameHas exercise ''lunge''
      \<or> nameHas exercise ''hip'' \<or> nameHas exercise ''leg'')"

definition actionVerbGerund :: "ExerciseData \<Rightarrow> string" where
  "actionVerbGerund exercise =
     (if isLegExercise exercise then
        (if nameHas exercise ''squat'' then ''squatting''
         else if nameHas exercise ''lunge'' then ''lunging'' else ''lifting'')
      else if isCurlingExercise exercise then ''curling''
      else ''lifting'')"

definition bodyPart :: "ExerciseData \<Rightarrow> string" where
  "bodyPart exercise =
     (if isLegExercise exercise then ''leg''
      else if isCurlingExercise exercise then ''forearm'' else ''arm'')"

definition inRange :: "real \<Rightarrow> real \<times> real \<Rightarrow> bool" where
  "inRange angle r = (angle \<ge> fst r \<and> angle \<le> snd r)"

definition isInOptimalPeak :: "ExerciseData \<Rightarrow> real \<Rightarrow> bool" where
  "isInOptimalPeak exercise angle =
     (if isLegExercise exercise then inRange angle (optimalPeak (ranges exercise))
      else (isLiftingExercise exercise \<and> inRange angle (optimalPeak (ranges exercise)))
           \<or> (isCurlingExercise exercise \<and> inRange angle (optimalPeak (ranges exercise))))"

definition isInStartingPosition :: "ExerciseData \<Rightarrow> real \<Rightarrow> bool" where
  "isInStartingPosition exercise angle =
     (if isLegExercise exercise
      then angle \<le> snd (startingPosition (ranges exercise))
           \<or> angle \<ge> fst (startingPosition (ranges exercise))
      else (isLiftingExercise exercise \<and> angle \<le> snd (startingPosition (ranges exercise)))
           \<or> (isCurlingExercise exercise \<and> angle \<ge> fst (startingPosition (ranges exercise))))"

text \<open>The test that counts a repetition, and the update it guards.\<close>

definition repIsCounted :: "ExerciseData \<Rightarrow> int \<Rightarrow> real \<Rightarrow> session \<Rightarrow> bool" where
  "repIsCounted exercise currentTime angle s =
     (isInOptimalPeak exercise angle \<and> \<not> hasReachedPeakRef s
      \<and> currentTime - lastRepTimeRef s > 1000)"

definition countRep :: "ExerciseData \<Rightarrow> int \<Rightarrow> real \<Rightarrow> session \<Rightarrow> session" where
  "countRep exercise currentTime angle s =
     (if repIsCounted exercise currentTime angle s
      then s\<lparr>hasReachedPeakRef := True, lastRepTimeRef := currentTime,
             repCounterRef := repCounterRef s + 1, repCount := repCounterRef s + 1\<rparr>
      else s)"

definition rearm :: "ExerciseData \<Rightarrow> real \<Rightarrow> session \<Rightarrow> session" where
  "rearm exercise angle s =
     (if isInStartingPosition exercise angle \<and> hasReachedPeakRef s
      then s\<lparr>hasReachedPeakRef := False\<rparr> else s)"

text \<open>
  The chain that sets \<^verbatim>\<open>feedbackText\<close>, \<^verbatim>\<open>formCorrect\<close> and
  \<^verbatim>\<open>currentState\<close>, in this order in the result.
\<close>

definition classifyPhase :: "ExerciseData \<Rightarrow> real \<Rightarrow> nat \<Rightarrow> string \<times> bool option \<times> string" where
  "classifyPhase exercise angle reps =
     (let gerund = actionVerbGerund exercise;
          ready = emojiFlag @ '' Ready position. Begin '' @ toLowerCase (exerciseName exercise)
      in if isInOptimalPeak exercise angle then
           (emojiCheck @ '' Excellent! Rep '' @ numToString reps
              @ '' completed - Full range achieved'', Some True, gerund)
         else if isLegExercise exercise then
           (if nameHas exercise ''squat'' \<and> angle < fst (optimalPeak (ranges exercise)) then
              (emojiChart @ '' Go deeper! Squat down more to reach full range'', Some True, gerund)
            else if angle > liftingMin (thresholds exercise) then
              (emojiChart @ '' Keep going! ''
                 @ (if gerund = ''squatting'' then ''Go deeper'' else ''Continue movement''),
               Some True, gerund)
            else (ready, Some True, ''ready''))
         else if (isLiftingExercise exercise \<and> angle > liftingMin (thresholds exercise))
                 \<or> (isCurlingExercise exercise \<and> angle < liftingMin (thresholds exercise)) then
           (emojiChart @ '' Keep going! ''
              @ (if isLiftingExercise exercise then ''Raise'' else ''Curl'') @ '' your ''
              @ bodyPart exercise @ '' ''
              @ (if isLiftingExercise exercise then ''higher'' else ''more''),
            Some True, gerund)
         else if isInStartingPosition exercise angle then (ready, Some True, ''ready'')
         else (emojiChart @ '' Start your movement'', Some True, ''ready''))"

text \<open>
  One form-check rule.  \<open>checkFails\<close> is true exactly when the body of the
  \<^verbatim>\<open>forEach\<close> callback overwrites \<^verbatim>\<open>feedbackText\<close> and \<^verbatim>\<open>formCorrect\<close>
  for that rule; \<open>moving\<close> is \<^verbatim>\<open>currentState === actionVerbGerund\<close>.
\<close>

definition sideIdx :: "side \<Rightarrow> nat \<Rightarrow> nat \<Rightarrow> nat" where
  "sideIdx detectedArm l r = (if detectedArm = Left then l else r)"

definition checkFails :: "landmarks \<Rightarrow> side \<Rightarrow> bool \<Rightarrow> formCheck \<Rightarrow> bool" where
  "checkFails landmarks detectedArm moving check =
     (let present = filter (\<lambda>p. p \<noteq> None)
                      (map landmarks (adjustCheckKeypoints detectedArm (keypoints check)))
      in if length present \<ge> 2 then
           if includes_str (condition check) ''wrist higher than shoulder'' \<and> moving then
             (case (landmarks (sideIdx detectedArm 11 12), landmarks (sideIdx detectedArm 15 16)) of
                (Some shoulder, Some wrist) \<Rightarrow> lm_y wrist < lm_y shoulder - 0.1
              | _ \<Rightarrow> False)
           else if includes_str (condition check) ''elbow below shoulder'' \<and> moving then
             (case (landmarks (sideIdx detectedArm 11 12), landmarks (sideIdx detectedArm 13 14)) of
                (Some shoulder, Some elbow) \<Rightarrow> lm_y elbow > lm_y shoulder + 0.05
              | _ \<Rightarrow> False)
           else if includes_str (condition check) ''knee alignment'' \<and> moving then
             (case (landmarks (sideIdx detectedArm 23 24), landmarks (sideIdx detectedArm 25 26),
                    landmarks (sideIdx detectedArm 27 28)) of
                (Some hip, Some knee, Some ankle) \<Rightarrow> \<bar>lm_x knee - lm_x ankle\<bar> > 0.1
              | _ \<Rightarrow> False)
           else if includes_str (condition check) ''back straight'' \<and> moving then
             (case (landmarks (sideIdx detectedArm 11 12), landmarks (sideIdx detectedArm 23 24)) of
                (Some shoulder, Some hip) \<Rightarrow> \<bar>lm_x shoulder - lm_x hip\<bar> > 0.15
              | _ \<Rightarrow> False)
           else if includes_str (condition check) ''Elbow moving off thigh'' \<and> moving then True
           else False
         else False)"

definition applyFormCheck ::
  "landmarks \<Rightarrow> side \<Rightarrow> bool \<Rightarrow> string \<times> bool option \<Rightarrow> formCheck \<Rightarrow> string \<times> bool option" where
  "applyFormCheck landmarks detectedArm moving acc check =
     (if checkFails landmarks detectedArm moving check
      then (msgWarning check, Some False) else acc)"

definition runFormChecks ::
  "landmarks \<Rightarrow> side \<Rightarrow> bool \<Rightarrow> formCheck list \<Rightarrow> string \<times> bool option \<Rightarrow> string \<times> bool option" where
  "runFormChecks landmarks detectedArm moving checks acc =
     foldl (applyFormCheck landmarks detectedArm moving) acc checks"

definition analyzeExerciseForm ::
  "bool \<Rightarrow> int \<Rightarrow> real \<Rightarrow> landmarks \<Rightarrow> ExerciseData \<Rightarrow> side \<Rightarrow> session \<Rightarrow> session" where
  "analyzeExerciseForm started currentTime angle landmarks exercise detectedArm s =
     (if \<not> started then s\<lparr>feedback := msgNotStarted, isCorrectForm := None\<rparr>
      else
        let s1 = countRep exercise currentTime angle s;
            s2 = rearm exercise angle s1;
            (feedbackText0, formCorrect0, currentState) =
               classifyPhase exercise angle (repCounterRef s2);
            (feedbackText, formCorrect) =
               runFormChecks landmarks detectedArm (currentState = actionVerbGerund exercise)
                 (formChecks exercise) (feedbackText0, formCorrect0);
            s3 = (if currentState \<noteq> lastStateRef s2
                  then s2\<lparr>exerciseState := currentState, lastStateRef := currentState\<rparr>
                  else s2)
        in s3\<lparr>feedback := feedbackText, isCorrectForm := formCorrect\<rparr>)"

section \<open>The frame callback\<close>

definition defaultExercise :: ExerciseData where
  "defaultExercise =
     \<lparr>exerciseName = ''Shoulder Abduction'',
      targetKeypoints = [11, 13, 15, 23],
      anglePoints = [23, 11, 13],
      ranges = \<lparr>startingPosition = (0, 45), targetRange = (90, 180), optimalPeak = (90, 120)\<rparr>,
      formChecks =
        [\<lparr>condition = ''wrist higher than shoulder'',
          errorMessage = ''Keep your arm horizontal, don't lift too high'',
          keypoints = [11, 15]\<rparr>,
         \<lparr>condition = ''elbow below shoulder'',
          errorMessage = ''Keep your elbow level with your shoulder'',
          keypoints = [11, 13]\<rparr>],
      thresholds = \<lparr>liftingMin = 60, loweringMax = 75, restMax = 45\<rparr>\<rparr>"

text \<open>\<^verbatim>\<open>currentExercise || defaultExercise\<close>\<close>

definition exerciseInUse :: "closure \<Rightarrow> ExerciseData" where
  "exerciseInUse cl = (case cl_currentExercise cl of Some e \<Rightarrow> e | None \<Rightarrow> defaultExercise)"

datatype bodyPartKind = Arms | Legs

definition getExerciseBodyPart :: "ExerciseData \<Rightarrow> bodyPartKind" where
  "getExerciseBodyPart exercise =
     (let hasLegKeypoints = list_ex (\<lambda>k. k \<ge> 23 \<and> k \<le> 32) (targetKeypoints exercise)
      in if hasLegKeypoints then Legs else Arms)"

text \<open>\<^verbatim>\<open>arr[i]\<close> and \<^verbatim>\<open>landmarks[arr[i]]\<close>, \<open>None\<close> for \<^verbatim>\<open>undefined\<close>.\<close>

definition elemAt :: "'a list \<Rightarrow> nat \<Rightarrow> 'a option" where
  "elemAt xs i = (if i < length xs then Some (xs ! i) else None)"

definition landmarkAt :: "landmarks \<Rightarrow> nat option \<Rightarrow> landmark option" where
  "landmarkAt landmarks i = (case i of None \<Rightarrow> None | Some k \<Rightarrow> landmarks k)"

text \<open>
  The part shared by \<^verbatim>\<open>analyzeArmExercise\<close> and \<^verbatim>\<open>analyzeLegExercise\<close> once the
  side is detected and the points are adjusted: the guard \<^verbatim>\<open>point1 && vertex && point2\<close>
  and its body.
\<close>

definition analyzeAt ::
  "closure \<Rightarrow> int \<Rightarrow> landmarks \<Rightarrow> ExerciseData \<Rightarrow> side \<Rightarrow> nat list \<Rightarrow> session \<Rightarrow> session" where
  "analyzeAt cl currentTime landmarks exercise detectedLocal adjustedPoints s =
     (case landmarkAt landmarks (elemAt adjustedPoints 0) of None \<Rightarrow> s | Some point1 \<Rightarrow>
      case landmarkAt landmarks (elemAt adjustedPoints 1) of None \<Rightarrow> s | Some vertex \<Rightarrow>
      case landmarkAt landmarks (elemAt adjustedPoints 2) of None \<Rightarrow> s | Some point2 \<Rightarrow>
        let s1 = (if detectedLocal \<noteq> cl_detectedArm cl
                  then s\<lparr>detectedArmState := detectedLocal\<rparr> else s);
            angle = calculateAngle point1 vertex point2;
            s2 = s1\<lparr>armAngle := round angle\<rparr>
        in analyzeExerciseForm (cl_exerciseStarted cl) currentTime angle landmarks exercise
             detectedLocal s2)"

definition analyzeArmExercise :: "closure \<Rightarrow> int \<Rightarrow> landmarks \<Rightarrow> session \<Rightarrow> session" where
  "analyzeArmExercise cl currentTime landmarks s =
     (let exercise = exerciseInUse cl;
          detectedArmLocal = detectActiveArm (cl_detectedArm cl) landmarks;
          adjustedPoints = adjustArmPoints detectedArmLocal (anglePoints exercise)
      in analyzeAt cl currentTime landmarks exercise detectedArmLocal adjustedPoints s)"

text \<open>\<open>None\<close>: the TypeError of \<open>detectActiveLeg\<close>, thrown before any state is written.\<close>

definition analyzeLegExercise :: "closure \<Rightarrow> int \<Rightarrow> landmarks \<Rightarrow> session \<Rightarrow> session option" where
  "analyzeLegExercise cl currentTime landmarks s =
     (let exercise = exerciseInUse cl
      in case detectActiveLeg (cl_detectedArm cl) landmarks of
           None \<Rightarrow> None
         | Some detectedLegLocal \<Rightarrow>
             Some (analyzeAt cl currentTime landmarks exercise detectedLegLocal
                     (adjustLegPoints detectedLegLocal (anglePoints exercise)) s))"

text \<open>
  \<^verbatim>\<open>onResults\<close> without the drawing: \<open>poseLandmarks\<close> is \<open>None\<close> when the estimator
  found no pose; an exception of the analysis is caught and leaves the state as it was.
\<close>

definition onResults :: "closure \<Rightarrow> int \<Rightarrow> landmarks option \<Rightarrow> session \<Rightarrow> session" where
  "onResults cl currentTime poseLandmarks s =
     (case poseLandmarks of
        None \<Rightarrow> s
      | Some landmarks \<Rightarrow>
          if getExerciseBodyPart (exerciseInUse cl) = Legs
          then (case analyzeLegExercise cl currentTime landmarks s of None \<Rightarrow> s | Some s' \<Rightarrow> s')
          else analyzeArmExercise cl currentTime landmarks s)"

text \<open>
  A run of analysed frames: each frame is the clock reading at its analysis, the angle, the
  landmarks and the detected side.
\<close>

fun runFrames ::
  "bool \<Rightarrow> ExerciseData \<Rightarrow> (int \<times> real \<times> landmarks \<times> side) list \<Rightarrow> session \<Rightarrow> session" where
  "runFrames started exercise [] s = s"
| "runFrames started exercise ((t, angle, landmarks, sd) # fs) s =
     runFrames started exercise fs
       (analyzeExerciseForm started t angle landmarks exercise sd s)"

section \<open>Load-time validation of a generated exercise\<close>

record exerciseTemplate =
  tpl_anglePoints :: "nat list"
  tpl_targetRanges :: targetRanges
  tpl_repThresholds :: repThresholds

definition shoulderAbduction :: exerciseTemplate where
  "shoulderAbduction =
     \<lparr>tpl_anglePoints = [23, 11, 13],
      tpl_targetRanges =
        \<lparr>startingPosition = (0, 45), targetRange = (90, 180), optimalPeak = (160, 180)\<rparr>,
      tpl_repThresholds = \<lparr>liftingMin = 90, loweringMax = 60, restMax = 30\<rparr>\<rparr>"

definition shoulderFlexion :: exerciseTemplate where
  "shoulderFlexion =
     \<lparr>tpl_anglePoints = [23, 11, 13],
      tpl_targetRanges =
        \<lparr>startingPosition = (0, 30), targetRange = (90, 180), optimalPeak = (160, 180)\<rparr>,
      tpl_repThresholds = \<lparr>liftingMin = 90, loweringMax = 60, restMax = 30\<rparr>\<rparr>"

definition pendulum :: exerciseTemplate where
  "pendulum =
     \<lparr>tpl_anglePoints = [11, 13, 15],
      tpl_targetRanges =
        \<lparr>startingPosition = (160, 180), targetRange = (90, 160), optimalPeak = (90, 120)\<rparr>,
      tpl_repThresholds = \<lparr>liftingMin = 140, loweringMax = 160, restMax = 175\<rparr>\<rparr>"

definition armCurl :: exerciseTemplate where
  "armCurl =
     \<lparr>tpl_anglePoints = [11, 13, 15],
      tpl_targetRanges =
        \<lparr>startingPosition = (160, 180), targetRange = (30, 90), optimalPeak = (30, 60)\<rparr>,
      tpl_repThresholds = \<lparr>liftingMin = 120, loweringMax = 150, restMax = 170\<rparr>\<rparr>"

definition legRaise :: exerciseTemplate where
  "legRaise =
     \<lparr>tpl_anglePoints = [12, 24, 26],
      tpl_targetRanges =
        \<lparr>startingPosition = (160, 180), targetRange = (90, 160), optimalPeak = (90, 120)\<rparr>,
      tpl_repThresholds = \<lparr>liftingMin = 140, loweringMax = 160, restMax = 175\<rparr>\<rparr>"

definition selectTemplate :: "string \<Rightarrow> exerciseTemplate option" where
  "selectTemplate lowered =
     (if includes_str lowered ''abduction'' \<or> includes_str lowered ''side''
        then Some shoulderAbduction
      else if includes_str lowered ''flexion'' \<or> includes_str lowered ''forward''
        then Some shoulderFlexion
      else if includes_str lowered ''pendulum'' \<or> includes_str lowered ''swing''
        then Some pendulum
      else if includes_str lowered ''curl'' \<or> includes_str lowered ''bicep''
              \<or> includes_str lowered ''biceps''
        then Some armCurl
      else if includes_str lowered ''leg'' \<and> includes_str lowered ''raise''
        then Some legRaise
      else None)"

definition applyTemplate :: "ExerciseData \<Rightarrow> ExerciseData" where
  "applyTemplate exerciseData =
     (case selectTemplate (toLowerCase (exerciseName exerciseData)) of
        None \<Rightarrow> exerciseData
      | Some template \<Rightarrow>
          exerciseData\<lparr>anglePoints := tpl_anglePoints template,
                       ranges := tpl_targetRanges template,
                       thresholds := tpl_repThresholds template\<rparr>)"

definition thresholdsInvalid :: "repThresholds \<Rightarrow> bool" where
  "thresholdsInvalid t = (liftingMin t \<ge> loweringMax t \<or> loweringMax t \<ge> restMax t)"

definition correctThresholds :: "repThresholds \<Rightarrow> repThresholds" where
  "correctThresholds t =
     (if thresholdsInvalid t then
        \<lparr>liftingMin = min (liftingMin t) (min (loweringMax t) (restMax t)),
         loweringMax = max (min (liftingMin t) (loweringMax t)) (min (loweringMax t) (restMax t)),
         restMax = max (liftingMin t) (max (loweringMax t) (restMax t))\<rparr>
      else t)"

definition validateAndCorrectExercise :: "ExerciseData \<Rightarrow> ExerciseData" where
  "validateAndCorrectExercise exerciseData =
     (let e = applyTemplate exerciseData
      in e\<lparr>thresholds := correctThresholds (thresholds e)\<rparr>)"

text \<open>The three values of a threshold record in ascending order, as the specification asks.\<close>

definition sortedThresholds :: "repThresholds \<Rightarrow> repThresholds" where
  "sortedThresholds t =
     (case sort [liftingMin t, loweringMax t, restMax t] of
        [a, b, c] \<Rightarrow> \<lparr>liftingMin = a, loweringMax = b, restMax = c\<rparr>
      | _ \<Rightarrow> t)"

section \<open>Start of a session\<close>

text \<open>The initial values of the refs and of the React state of the component.\<close>

definition initialSession :: session where
  "initialSession =
     \<lparr>repCounterRef = 0, lastStateRef = ''ready'', hasReachedPeakRef = False,
      lastRepTimeRef = 0, feedback = ''Loading MediaPipe...'', exerciseState = ''ready'',
      repCount = 0, armAngle = 0, isCorrectForm = None, detectedArmState = Left\<rparr>"

text \<open>The resets of \<^verbatim>\<open>handleStartExercise\<close> when the exercise is being started.\<close>

definition startExercise :: "session \<Rightarrow> session" where
  "startExercise s =
     s\<lparr>repCount := 0, repCounterRef := 0, hasReachedPeakRef := False, lastRepTimeRef := 0,
       lastStateRef := ''ready'', feedback := ''Exercise started! Begin your movements''\<rparr>"

section \<open>Derived notions used in the statements\<close>

text \<open>The value of \<^verbatim>\<open>currentState\<close> after the classification chain.\<close>

definition phaseState :: "ExerciseData \<Rightarrow> real \<Rightarrow> string" where
  "phaseState exercise angle = snd (snd (classifyPhase exercise angle 0))"

text \<open>The rules of the exercise that fail on a frame, in the order of the list.\<close>

definition failingChecks :: "landmarks \<Rightarrow> side \<Rightarrow> ExerciseData \<Rightarrow> real \<Rightarrow> formCheck list" where
  "failingChecks landmarks sd exercise angle =
     filter (checkFails landmarks sd (phaseState exercise angle = actionVerbGerund exercise))
       (formChecks exercise)"

text \<open>The clock reading and the angle of a frame of a run.\<close>

definition frameTime :: "int \<times> real \<times> landmarks \<times> side \<Rightarrow> int" where
  "frameTime f = fst f"

definition frameAngle :: "int \<times> real \<times> landmarks \<times> side \<Rightarrow> real" where
  "frameAngle f = fst (snd f)"

text \<open>
  A frame of a run without landmarks, for runs in which only the angle and the clock
  matter.
\<close>

definition angleFrame :: "int \<Rightarrow> real \<Rightarrow> int \<times> real \<times> landmarks \<times> side" where
  "angleFrame t angle = (t, angle, Map.empty, Left)"

text \<open>
  How often the debounce interval elapses along a list of clock readings: a reading
  counts when it lies more than 1000 ms after the last reading that counted.
\<close>

fun debounceElapses :: "int \<Rightarrow> int list \<Rightarrow> nat" where
  "debounceElapses lastTime [] = 0"
| "debounceElapses lastTime (t # ts) =
     (if t - lastTime > 1000 then 1 + debounceElapses t ts else debounceElapses lastTime ts)"

text \<open>
  The points at which the frame callback reads the three landmarks of the primary angle:
  the configured points after the side adjustment of the path the exercise takes (the leg
  path when a target keypoint lies in 23..32, the arm path otherwise).  \<open>None\<close> when the
  leg detection throws.
\<close>

definition resolvedAnglePoints :: "closure \<Rightarrow> landmarks \<Rightarrow> nat list option" where
  "resolvedAnglePoints cl landmarks =
     (if getExerciseBodyPart (exerciseInUse cl) = Legs
      then map_option (\<lambda>detectedLegLocal.
             adjustLegPoints detectedLegLocal (anglePoints (exerciseInUse cl)))
             (detectActiveLeg (cl_detectedArm cl) landmarks)
      else Some (adjustArmPoints (detectActiveArm (cl_detectedArm cl) landmarks)
                   (anglePoints (exerciseInUse cl))))"

text \<open>The one-way map from a left-side landmark index to its right-side partner.\<close>

definition leftToRight :: "nat \<Rightarrow> nat" where
  "leftToRight i = (if i \<in> {11, 13, 15, 23, 25, 27} then i + 1 else i)"

text \<open>The three landmarks read for the primary angle, given the adjusted points.\<close>

definition anglePointMissing :: "landmarks \<Rightarrow> nat list \<Rightarrow> bool" where
  "anglePointMissing landmarks adjustedPoints =
     (landmarkAt landmarks (elemAt adjustedPoints 0) = None
      \<or> landmarkAt landmarks (elemAt adjustedPoints 1) = None
      \<or> landmarkAt landmarks (elemAt adjustedPoints 2) = None)"

text \<open>The landmarks of a frame with the visibility of each replaced.\<close>

definition withVisibility :: "(nat \<Rightarrow> real) \<Rightarrow> landmarks \<Rightarrow> landmarks" where
  "withVisibility v landmarks i = map_option (\<lambda>p. p\<lparr>visibility := v i\<rparr>) (landmarks i)"

section \<open>Example inputs\<close>

definition pt :: "real \<Rightarrow> real \<Rightarrow> real \<Rightarrow> landmark" where
  "pt px py v = \<lparr>lm_x = px, lm_y = py, visibility = v\<rparr>"

text \<open>Wrist well above the shoulder, elbow below it.\<close>

definition bothRulesFrame :: landmarks where
  "bothRulesFrame = [11 \<mapsto> pt 0.5 0.5 0.9, 13 \<mapsto> pt 0.6 0.6 0.9, 15 \<mapsto> pt 0.7 0.3 0.9]"

text \<open>A generated exercise whose name matches no template and no category of the analysis.\<close>

definition neckRotation :: ExerciseData where
  "neckRotation =
     \<lparr>exerciseName = ''Neck Rotation'',
      targetKeypoints = [11, 12],
      anglePoints = [11, 0, 12],
      ranges = \<lparr>startingPosition = (0, 20), targetRange = (40, 90), optimalPeak = (60, 90)\<rparr>,
      formChecks = [],
      thresholds = \<lparr>liftingMin = 90, loweringMax = 30, restMax = 60\<rparr>\<rparr>"

text \<open>A leg raise with the values of the \<open>legRaise\<close> template.\<close>

definition legRaiseExercise :: ExerciseData where
  "legRaiseExercise =
     \<lparr>exerciseName = ''Leg Raise'',
      targetKeypoints = [24, 26, 28],
      anglePoints = [12, 24, 26],
      ranges = \<lparr>startingPosition = (160, 180), targetRange = (90, 160), optimalPeak = (90, 120)\<rparr>,
      formChecks = [],
      thresholds = \<lparr>liftingMin = 140, loweringMax = 160, restMax = 175\<rparr>\<rparr>"

text \<open>
  The closure of a started session in which no generated exercise is loaded, tracking the
  left side.
\<close>

definition noExerciseLoaded :: closure where
  "noExerciseLoaded =
     \<lparr>cl_exerciseStarted = True, cl_detectedArm = Left, cl_currentExercise = None\<rparr>"

text \<open>
  An upper-body frame (no knees or ankles in it): left arm raised to the horizontal, right
  arm hanging; the left shoulder, the vertex of the primary angle of the default exercise,
  is reported with visibility 0.1.
\<close>

definition lowVisibilityFrame :: landmarks where
  "lowVisibilityFrame =
     [11 \<mapsto> pt 0.6 0.4 0.1, 13 \<mapsto> pt 0.75 0.4 0.9, 15 \<mapsto> pt 0.9 0.4 0.9,
      23 \<mapsto> pt 0.6 0.8 0.9,
      12 \<mapsto> pt 0.4 0.4 0.9, 14 \<mapsto> pt 0.4 0.6 0.9, 16 \<mapsto> pt 0.4 0.8 0.9,
      24 \<mapsto> pt 0.4 0.85 0.9]"

text \<open>
  An upper-body frame with the left upper arm raised a little more than halfway to the
  horizontal: the hip straight below the shoulder, the elbow in the direction (4, 3) from
  the shoulder.
\<close>

definition gapFrame :: landmarks where
  "gapFrame =
     [11 \<mapsto> pt 0.6 0.4 0.9, 13 \<mapsto> pt 0.8 0.55 0.9, 15 \<mapsto> pt 0.9 0.7 0.9,
      23 \<mapsto> pt 0.6 0.8 0.9,
      12 \<mapsto> pt 0.4 0.4 0.9, 14 \<mapsto> pt 0.4 0.6 0.9, 16 \<mapsto> pt 0.4 0.8 0.9,
      24 \<mapsto> pt 0.4 0.85 0.9]"

text \<open>The angle in degrees between the straight-down direction and the direction (1, 3).\<close>

definition restAngle :: real where
  "restAngle = arctan (1 / 3) * 180 / pi"

text \<open>
  Both arms at rest and mirror images of each other: the hip straight below the shoulder,
  the elbow slightly away from the body, the wrist back under the shoulder.
\<close>

definition restingArmsFrame :: landmarks where
  "restingArmsFrame =
     [11 \<mapsto> pt 0.6 0.1 0.9, 13 \<mapsto> pt 0.7 0.4 0.9, 15 \<mapsto> pt 0.6 0.8 0.9,
      23 \<mapsto> pt 0.6 0.7 0.9,
      12 \<mapsto> pt 0.4 0.1 0.9, 14 \<mapsto> pt 0.3 0.4 0.9, 16 \<mapsto> pt 0.4 0.8 0.9,
      24 \<mapsto> pt 0.4 0.7 0.9]"

section \<open>Properties of the angle\<close>

lemma atan2_bounds: "- pi < atan2 y x \<and> atan2 y x \<le> pi"
proof -
  have b: "- (pi / 2) < arctan (y / x)" "arctan (y / x) < pi / 2"
    using arctan_bounded [of "y / x"] by simp_all
  have neg: "arctan (y / x) \<le> 0" if "x < 0" "0 \<le> y"
  proof -
    have "y / x \<le> 0" using that by (simp add: divide_nonneg_neg)
    then have "arctan (y / x) \<le> arctan 0" by (simp only: arctan_le_iff)
    then show ?thesis by simp
  qed
  have pos: "0 < arctan (y / x)" if "x < 0" "y < 0"
    using that by (simp add: divide_neg_neg)
  show ?thesis
    unfolding atan2_def using b neg pos pi_gt_zero by auto
qed

lemma degrees_bound:
  assumes "\<bar>r\<bar> < 2 * pi"
  shows "\<bar>r * 180 / pi\<bar> < 360"
proof -
  have "\<bar>r * 180 / pi\<bar> = \<bar>r\<bar> * 180 / pi"
    by (simp add: abs_mult)
  also have "\<dots> < 360"
    using assms pi_gt_zero by (simp add: pos_divide_less_eq)
  finally show ?thesis .
qed

text \<open>
  Claim C8.  For every three points, the angle computed by \<open>calculateAngle\<close> (the
  absolute difference of the two \<open>atan2\<close> values in degrees, reflected to \<open>360 - angle\<close>
  when it exceeds 180) lies in the closed interval from 0 to 180.
\<close>

theorem calculateAngle_range:
  "0 \<le> calculateAngle a b c \<and> calculateAngle a b c \<le> 180"
proof -
  define r where "r = atan2 (lm_y c - lm_y b) (lm_x c - lm_x b)
                      - atan2 (lm_y a - lm_y b) (lm_x a - lm_x b)"
  have "\<bar>r\<bar> < 2 * pi"
    unfolding r_def
    using atan2_bounds [of "lm_y c - lm_y b" "lm_x c - lm_x b"]
          atan2_bounds [of "lm_y a - lm_y b" "lm_x a - lm_x b"]
    by linarith
  then have "\<bar>r * 180 / pi\<bar> < 360" by (rule degrees_bound)
  moreover have "0 \<le> \<bar>r * 180 / pi\<bar>" by simp
  ultimately show ?thesis
    unfolding calculateAngle_def Let_def r_def [symmetric] by auto
qed

section \<open>Projections of the per-frame analysis\<close>

lemma analyze_repCounter:
  "repCounterRef (analyzeExerciseForm True t a lms ex sd s) = repCounterRef (countRep ex t a s)"
  by (simp add: analyzeExerciseForm_def rearm_def Let_def case_prod_beta)

lemma analyze_lastRepTime:
  "lastRepTimeRef (analyzeExerciseForm True t a lms ex sd s) = lastRepTimeRef (countRep ex t a s)"
  by (simp add: analyzeExerciseForm_def rearm_def Let_def case_prod_beta)

lemma analyze_hasReachedPeak:
  "hasReachedPeakRef (analyzeExerciseForm True t a lms ex sd s)
     = hasReachedPeakRef (rearm ex a (countRep ex t a s))"
  by (simp add: analyzeExerciseForm_def Let_def case_prod_beta)

lemma classifyPhase_state: "snd (snd (classifyPhase ex a n)) = phaseState ex a"
  by (simp add: classifyPhase_def phaseState_def Let_def)

lemma classifyPhase_formCorrect: "fst (snd (classifyPhase ex a n)) = Some True"
  by (simp add: classifyPhase_def Let_def)

lemma analyze_feedback:
  "feedback (analyzeExerciseForm True t a lms ex sd s)
     = fst (runFormChecks lms sd (phaseState ex a = actionVerbGerund ex) (formChecks ex)
              (fst (classifyPhase ex a (repCounterRef (countRep ex t a s))), Some True))"
  by (simp add: analyzeExerciseForm_def rearm_def Let_def case_prod_beta
        classifyPhase_state classifyPhase_formCorrect)

lemma analyze_isCorrectForm:
  "isCorrectForm (analyzeExerciseForm True t a lms ex sd s)
     = snd (runFormChecks lms sd (phaseState ex a = actionVerbGerund ex) (formChecks ex)
              (fst (classifyPhase ex a (repCounterRef (countRep ex t a s))), Some True))"
  by (simp add: analyzeExerciseForm_def rearm_def Let_def case_prod_beta
        classifyPhase_state classifyPhase_formCorrect)

section \<open>Form checks\<close>

lemma runFormChecks_snoc:
  "runFormChecks lms sd moving (checks @ [c]) acc
     = applyFormCheck lms sd moving (runFormChecks lms sd moving checks acc) c"
  by (simp add: runFormChecks_def)

lemma runFormChecks_last:
  "runFormChecks lms sd moving checks acc =
     (case filter (checkFails lms sd moving) checks of
        [] \<Rightarrow> acc
      | f # fs \<Rightarrow> (msgWarning (last (f # fs)), Some False))"
proof (induction checks rule: rev_induct)
  case Nil
  show ?case by (simp add: runFormChecks_def)
next
  case (snoc c checks)
  show ?case
    unfolding runFormChecks_snoc snoc.IH
    by (cases "filter (checkFails lms sd moving) checks")
       (simp_all add: applyFormCheck_def)
qed

lemma default_name: "toLowerCase (exerciseName defaultExercise) = ''shoulder abduction''"
  by (simp add: defaultExercise_def toLowerCase_def lowerChar_def)

lemma default_category:
  "isLiftingExercise defaultExercise" "\<not> isLegExercise defaultExercise"
  "\<not> isCurlingExercise defaultExercise"
  by (simp_all add: isLiftingExercise_def isLegExercise_def isCurlingExercise_def nameHas_def
        default_name)

lemma default_gerund: "actionVerbGerund defaultExercise = ''lifting''"
  by (simp add: actionVerbGerund_def default_category)

lemma default_fields:
  "optimalPeak (ranges defaultExercise) = (90, 120)"
  "startingPosition (ranges defaultExercise) = (0, 45)"
  "thresholds defaultExercise = \<lparr>liftingMin = 60, loweringMax = 75, restMax = 45\<rparr>"
  by (simp_all add: defaultExercise_def)

lemma default_checks:
  "formChecks defaultExercise =
     [\<lparr>condition = ''wrist higher than shoulder'',
       errorMessage = ''Keep your arm horizontal, don't lift too high'',
       keypoints = [11, 15]\<rparr>,
      \<lparr>condition = ''elbow below shoulder'',
       errorMessage = ''Keep your elbow level with your shoulder'',
       keypoints = [11, 13]\<rparr>]"
  by (simp add: defaultExercise_def)

lemma default_phase_70: "phaseState defaultExercise 70 = ''lifting''"
  by (simp add: phaseState_def classifyPhase_def Let_def isInOptimalPeak_def inRange_def
        default_category default_fields default_gerund)

lemma bothRules_fail:
  "failingChecks bothRulesFrame Left defaultExercise 70 = formChecks defaultExercise"
  by (simp add: failingChecks_def default_phase_70 default_gerund default_checks
        checkFails_def adjustCheckKeypoints_def mirrorCheckIndex_def bothRulesFrame_def
        sideIdx_def pt_def Let_def)

lemma feedback_of_failing:
  assumes "failingChecks lms sd ex angle \<noteq> []"
  shows "feedback (analyzeExerciseForm True t angle lms ex sd s)
           = msgWarning (last (failingChecks lms sd ex angle))"
    and "isCorrectForm (analyzeExerciseForm True t angle lms ex sd s) = Some False"
  using assms
  by (simp_all add: analyze_feedback analyze_isCorrectForm runFormChecks_last failingChecks_def
        split: list.splits)

lemma bothRules_feedback:
  "feedback (analyzeExerciseForm True 5000 70 bothRulesFrame defaultExercise Left
        (startExercise initialSession))
     = emojiWarning @ '' Keep your elbow level with your shoulder''"
proof -
  have ne: "failingChecks bothRulesFrame Left defaultExercise 70 \<noteq> []"
    by (simp add: bothRules_fail default_checks)
  show ?thesis
    unfolding feedback_of_failing(1) [OF ne]
    by (simp add: bothRules_fail default_checks msgWarning_def)
qed

text \<open>
  Claim C5 (as amended).  When at least one form-check rule fails on a frame of a started
  exercise, the message shown is the warning sign, a space and the \<open>errorMessage\<close> of the
  last failing rule of the list, and the form is reported as not correct.
\<close>

theorem form_check_last_failing_wins:
  assumes "failingChecks lms sd ex angle \<noteq> []"
  shows "feedback (analyzeExerciseForm True t angle lms ex sd s)
           = msgWarning (last (failingChecks lms sd ex angle))
         \<and> isCorrectForm (analyzeExerciseForm True t angle lms ex sd s) = Some False"
  using feedback_of_failing [OF assms] by simp

theorem form_check_last_failing_wins_witness:
  "failingChecks bothRulesFrame Left defaultExercise 70 \<noteq> []
   \<and> feedback (analyzeExerciseForm True 5000 70 bothRulesFrame defaultExercise Left
        (startExercise initialSession))
       = emojiWarning @ '' Keep your elbow level with your shoulder''
   \<and> isCorrectForm (analyzeExerciseForm True 5000 70 bothRulesFrame defaultExercise Left
        (startExercise initialSession)) = Some False"
proof -
  have ne: "failingChecks bothRulesFrame Left defaultExercise 70 \<noteq> []"
    by (simp add: bothRules_fail default_checks)
  have l: "msgWarning (last (failingChecks bothRulesFrame Left defaultExercise 70))
             = emojiWarning @ '' Keep your elbow level with your shoulder''"
    by (simp add: bothRules_fail default_checks msgWarning_def)
  show ?thesis
    using form_check_last_failing_wins [OF ne, of 5000 "startExercise initialSession"] ne l
    by simp
qed

text \<open>
  The claim as stated fails: on a frame of the default exercise in its movement state on
  which both rules fail, the message is that of the second rule, not the first.
\<close>

theorem first_failing_rule_counterexample:
  "phaseState defaultExercise 70 = actionVerbGerund defaultExercise
   \<and> failingChecks bothRulesFrame Left defaultExercise 70 = formChecks defaultExercise
   \<and> feedback (analyzeExerciseForm True 5000 70 bothRulesFrame defaultExercise Left
        (startExercise initialSession))
       \<noteq> errorMessage (hd (formChecks defaultExercise))
   \<and> feedback (analyzeExerciseForm True 5000 70 bothRulesFrame defaultExercise Left
        (startExercise initialSession))
       \<noteq> msgWarning (hd (formChecks defaultExercise))"
  by (simp add: default_phase_70 default_gerund bothRules_fail bothRules_feedback
        msgWarning_def emojiWarning_def default_checks)

section \<open>Threshold correction\<close>

lemma neck_name: "toLowerCase (exerciseName neckRotation) = ''neck rotation''"
  by (simp add: neckRotation_def toLowerCase_def lowerChar_def)

lemma neck_no_template: "applyTemplate neckRotation = neckRotation"
  by (simp add: applyTemplate_def selectTemplate_def neck_name)

lemma sort3:
  "sort [a, b, c :: real] =
     (if a \<le> b then (if b \<le> c then [a, b, c] else if a \<le> c then [a, c, b] else [c, a, b])
      else (if a \<le> c then [b, a, c] else if b \<le> c then [b, c, a] else [c, b, a]))"
  by auto

lemma correctThresholds_sorts:
  assumes "thresholdsInvalid t"
    and "\<not> (loweringMax t < liftingMin t \<and> loweringMax t < restMax t)"
  shows "correctThresholds t = sortedThresholds t"
  using assms
  by (auto simp add: correctThresholds_def sortedThresholds_def thresholdsInvalid_def sort3
        min_def max_def)

lemma correctThresholds_spec_example:
  "correctThresholds \<lparr>liftingMin = 90, loweringMax = 60, restMax = 30\<rparr>
     = \<lparr>liftingMin = 30, loweringMax = 60, restMax = 90\<rparr>"
  by (simp add: correctThresholds_def thresholdsInvalid_def)

text \<open>
  Claim C3.  The correction is meant to put the three values in ascending order.  For the
  generated exercise \<open>neckRotation\<close>, whose thresholds are 90, 30, 60, the code returns
  30, 30, 90: the middle value is computed as the larger of \<open>min liftingMin loweringMax\<close>
  and \<open>min loweringMax restMax\<close>, which is \<open>loweringMax\<close> itself whenever it is the
  smallest of the three.  The result is not the ascending sort 30, 60, 90 and still
  fails the ordering test of the code.
\<close>

theorem correctThresholds_middle_value_slip:
  "thresholds neckRotation = \<lparr>liftingMin = 90, loweringMax = 30, restMax = 60\<rparr>
   \<and> thresholds (validateAndCorrectExercise neckRotation)
       = \<lparr>liftingMin = 30, loweringMax = 30, restMax = 90\<rparr>
   \<and> sortedThresholds (thresholds neckRotation)
       = \<lparr>liftingMin = 30, loweringMax = 60, restMax = 90\<rparr>
   \<and> thresholdsInvalid (thresholds (validateAndCorrectExercise neckRotation))"
proof -
  have t: "thresholds neckRotation = \<lparr>liftingMin = 90, loweringMax = 30, restMax = 60\<rparr>"
    by (simp add: neckRotation_def)
  have v: "thresholds (validateAndCorrectExercise neckRotation)
             = \<lparr>liftingMin = 30, loweringMax = 30, restMax = 90\<rparr>"
    by (simp add: validateAndCorrectExercise_def neck_no_template t correctThresholds_def
          thresholdsInvalid_def)
  have s: "sortedThresholds (thresholds neckRotation)
             = \<lparr>liftingMin = 30, loweringMax = 60, restMax = 90\<rparr>"
    by (simp add: t sortedThresholds_def sort3)
  show ?thesis
    unfolding v s using t by (simp add: thresholdsInvalid_def)
qed

section \<open>Index resolution\<close>

lemma mirrorCheckIndex_Right: "mirrorCheckIndex Right i = leftToRight i"
  by (simp add: mirrorCheckIndex_def leftToRight_def)

lemma mirrorArmPoint_eq: "i \<noteq> 27 \<Longrightarrow> mirrorArmPoint i = leftToRight i"
  by (simp add: mirrorArmPoint_def leftToRight_def)

text \<open>
  Claim C6 (as amended).  Resolving to the right side sends each left-side index 11, 13,
  15, 23, 25, 27 to its right-side partner and leaves every other index, the right-side
  indices included, as it is; resolving to the left side is the identity.  This is the map
  of the form-check loop; the map of \<open>analyzeArmExercise\<close> agrees with it on every list
  without the index 27.  In particular 11, 13, 15, 23 resolve to 12, 14, 16, 24.
\<close>

theorem resolve_indices_left_to_right:
  "adjustCheckKeypoints Right ks = map leftToRight ks
   \<and> adjustCheckKeypoints Left ks = ks
   \<and> adjustArmPoints Left ks = ks
   \<and> (27 \<notin> set ks \<longrightarrow> adjustArmPoints Right ks = adjustCheckKeypoints Right ks)
   \<and> (\<forall>i. i \<notin> {11, 13, 15, 23, 25, 27} \<longrightarrow> leftToRight i = i)
   \<and> adjustArmPoints Right [11, 13, 15, 23] = [12, 14, 16, 24]
   \<and> adjustCheckKeypoints Right [11, 13, 15, 23] = [12, 14, 16, 24]"
proof -
  have a: "adjustCheckKeypoints Right ks = map leftToRight ks"
    by (simp add: adjustCheckKeypoints_def mirrorCheckIndex_Right)
  have b: "adjustCheckKeypoints Left ks = ks"
    by (induction ks) (simp_all add: adjustCheckKeypoints_def mirrorCheckIndex_def)
  have c: "adjustArmPoints Left ks = ks"
    by (simp add: adjustArmPoints_def)
  have d: "27 \<notin> set ks \<longrightarrow> adjustArmPoints Right ks = adjustCheckKeypoints Right ks"
    unfolding a by (induction ks) (auto simp add: adjustArmPoints_def mirrorArmPoint_eq)
  have e: "\<forall>i. i \<notin> {11, 13, 15, 23, 25, 27} \<longrightarrow> leftToRight i = i"
    by (simp add: leftToRight_def)
  have f: "adjustArmPoints Right [11, 13, 15, 23] = [12, 14, 16, 24]"
    by (simp add: adjustArmPoints_def mirrorArmPoint_def)
  have g: "adjustCheckKeypoints Right [11, 13, 15, 23] = [12, 14, 16, 24]"
    by (simp add: adjustCheckKeypoints_def mirrorCheckIndex_def)
  show ?thesis using a b c d e f g by blast
qed

theorem resolve_indices_left_to_right_witness:
  "27 \<notin> set [12, 24, 26 :: nat]
   \<and> (12::nat) \<notin> {11, 13, 15, 23, 25, 27}
   \<and> adjustArmPoints Right [12, 24, 26] = adjustCheckKeypoints Right [12, 24, 26]
   \<and> adjustCheckKeypoints Right [12, 24, 26] = [12, 24, 26]
   \<and> leftToRight 12 = 12"
  using resolve_indices_left_to_right [of "[12, 24, 26]"]
  by (simp add: leftToRight_def)

text \<open>
  The claim as stated fails: the points 12, 24, 26 of the \<open>legRaise\<close> template are not
  exchanged for 11, 23, 25 on the right side, as the two-way mirror map would have it.
\<close>

theorem two_way_mirror_counterexample:
  "tpl_anglePoints legRaise = [12, 24, 26]
   \<and> adjustArmPoints Right [12, 24, 26] = [12, 24, 26]
   \<and> adjustLegPoints Right [12, 24, 26] = [12, 24, 26]
   \<and> adjustCheckKeypoints Right [12, 24, 26] = [12, 24, 26]
   \<and> specResolveIndices [12, 24, 26] Right = [11, 23, 25]"
  by (simp add: legRaise_def adjustArmPoints_def mirrorArmPoint_def adjustLegPoints_def
        mirrorLegPoint_def adjustCheckKeypoints_def mirrorCheckIndex_def
        specResolveIndices_def specMirror_def)

section \<open>Phase classification\<close>

lemma lifting_gerund:
  "\<not> isLegExercise ex \<Longrightarrow> \<not> isCurlingExercise ex \<Longrightarrow> actionVerbGerund ex = ''lifting''"
  by (simp add: actionVerbGerund_def)

lemma lifting_phaseState:
  assumes "isLiftingExercise ex" "\<not> isLegExercise ex" "\<not> isCurlingExercise ex"
  shows "phaseState ex angle =
           (if inRange angle (optimalPeak (ranges ex)) \<or> angle > liftingMin (thresholds ex)
            then ''lifting'' else ''ready'')"
  using assms
  by (simp add: phaseState_def classifyPhase_def Let_def isInOptimalPeak_def lifting_gerund)

lemma lifting_peak_message:
  assumes "isLiftingExercise ex" "\<not> isLegExercise ex" "inRange angle (optimalPeak (ranges ex))"
  shows "fst (classifyPhase ex angle n)
           = emojiCheck @ '' Excellent! Rep '' @ numToString n @ '' completed - Full range achieved''"
  using assms
  by (simp add: classifyPhase_def Let_def isInOptimalPeak_def)

lemma phaseState_ignores_restMax:
  "phaseState (ex\<lparr>thresholds := (thresholds ex)\<lparr>restMax := r\<rparr>\<rparr>) angle = phaseState ex angle"
  by (simp add: phaseState_def classifyPhase_def Let_def isInOptimalPeak_def
        isInStartingPosition_def isLegExercise_def isLiftingExercise_def isCurlingExercise_def
        actionVerbGerund_def nameHas_def)

lemma default_phase_50: "phaseState defaultExercise 50 = ''ready''"
  by (simp add: lifting_phaseState default_category default_fields inRange_def)

text \<open>
  Claim C4 (as amended).  For an extension-type exercise (a lifting exercise that is
  neither a leg nor a curling exercise) every angle gets exactly one state: the movement
  state, with the rep-completed message, when the angle is in \<open>optimalPeak\<close>; the movement
  state when the angle exceeds \<open>liftingMin\<close>; and \<open>ready\<close> at every other angle, the
  angles between \<open>restMax\<close> and \<open>liftingMin\<close> included.  \<open>restMax\<close> is not consulted.
\<close>

theorem extension_phase_classification:
  assumes "isLiftingExercise ex" "\<not> isLegExercise ex" "\<not> isCurlingExercise ex"
  shows "phaseState ex angle =
           (if inRange angle (optimalPeak (ranges ex)) \<or> angle > liftingMin (thresholds ex)
            then ''lifting'' else ''ready'')
         \<and> (inRange angle (optimalPeak (ranges ex)) \<longrightarrow>
              fst (classifyPhase ex angle n)
                = emojiCheck @ '' Excellent! Rep '' @ numToString n
                    @ '' completed - Full range achieved'')
         \<and> (restMax (thresholds ex) < angle \<and> angle \<le> liftingMin (thresholds ex)
              \<and> \<not> inRange angle (optimalPeak (ranges ex)) \<longrightarrow> phaseState ex angle = ''ready'')
         \<and> phaseState (ex\<lparr>thresholds := (thresholds ex)\<lparr>restMax := r\<rparr>\<rparr>) angle
             = phaseState ex angle"
  using lifting_phaseState [OF assms, of angle] lifting_peak_message [OF assms(1,2), of angle n]
        phaseState_ignores_restMax
  by simp

theorem extension_phase_classification_witness:
  "isLiftingExercise defaultExercise \<and> \<not> isLegExercise defaultExercise
   \<and> \<not> isCurlingExercise defaultExercise
   \<and> restMax (thresholds defaultExercise) < 50 \<and> 50 \<le> liftingMin (thresholds defaultExercise)
   \<and> \<not> inRange 50 (optimalPeak (ranges defaultExercise))
   \<and> phaseState defaultExercise 50 = ''ready''
   \<and> inRange 100 (optimalPeak (ranges defaultExercise))
   \<and> phaseState defaultExercise 100 = ''lifting''
   \<and> fst (classifyPhase defaultExercise 100 1)
       = emojiCheck @ '' Excellent! Rep 1 completed - Full range achieved''"
  using extension_phase_classification [OF default_category, of 50 0 45]
        extension_phase_classification [OF default_category, of 100 1 45]
  by (simp add: default_category default_fields inRange_def numToString.simps digitChar_def)

text \<open>
  The claim as stated fails: for the default exercise (\<open>restMax\<close> 45, \<open>liftingMin\<close> 60) the
  angle 50 lies in the gap between the two and is classified \<open>ready\<close>, not as moving.
\<close>

theorem gap_is_ready_counterexample:
  "isLiftingExercise defaultExercise \<and> \<not> isLegExercise defaultExercise
   \<and> \<not> isCurlingExercise defaultExercise
   \<and> restMax (thresholds defaultExercise) < 50 \<and> 50 \<le> liftingMin (thresholds defaultExercise)
   \<and> phaseState defaultExercise 50 = ''ready''
   \<and> phaseState defaultExercise 50 \<noteq> actionVerbGerund defaultExercise"
  by (simp add: default_category default_fields default_phase_50 default_gerund)

section \<open>The default exercise\<close>

lemma default_template:
  "selectTemplate (toLowerCase (exerciseName defaultExercise)) = Some shoulderAbduction"
  by (simp add: default_name selectTemplate_def)

lemma default_validated_thresholds:
  "thresholds (validateAndCorrectExercise defaultExercise)
     = \<lparr>liftingMin = 30, loweringMax = 60, restMax = 90\<rparr>"
  by (simp add: validateAndCorrectExercise_def applyTemplate_def default_template
        shoulderAbduction_def correctThresholds_def thresholdsInvalid_def)

lemma default_corrected:
  "correctThresholds (thresholds defaultExercise)
     = \<lparr>liftingMin = 45, loweringMax = 60, restMax = 75\<rparr>"
  by (simp add: default_fields correctThresholds_def thresholdsInvalid_def)

lemma default_corrected_category:
  "isLiftingExercise (defaultExercise\<lparr>thresholds := th\<rparr>)"
  "\<not> isLegExercise (defaultExercise\<lparr>thresholds := th\<rparr>)"
  "\<not> isCurlingExercise (defaultExercise\<lparr>thresholds := th\<rparr>)"
  using default_category
  by (simp_all add: isLiftingExercise_def isLegExercise_def isCurlingExercise_def nameHas_def)

lemma default_corrected_phase_50:
  "phaseState (defaultExercise\<lparr>thresholds := correctThresholds (thresholds defaultExercise)\<rparr>) 50
     = ''lifting''"
  by (simp add: lifting_phaseState default_corrected_category default_corrected)

section \<open>Counting repetitions\<close>

lemma repIsCounted_iff:
  "repIsCounted ex t a s \<longleftrightarrow>
     (isLegExercise ex \<or> isLiftingExercise ex \<or> isCurlingExercise ex)
     \<and> inRange a (optimalPeak (ranges ex)) \<and> \<not> hasReachedPeakRef s
     \<and> t - lastRepTimeRef s > 1000"
  by (auto simp add: repIsCounted_def isInOptimalPeak_def)

lemma analyze_counter:
  "repCounterRef (analyzeExerciseForm True t a lms ex sd s)
     = (if repIsCounted ex t a s then repCounterRef s + 1 else repCounterRef s)"
  by (simp add: analyze_repCounter countRep_def)

lemma analyze_last:
  "lastRepTimeRef (analyzeExerciseForm True t a lms ex sd s)
     = (if repIsCounted ex t a s then t else lastRepTimeRef s)"
  by (simp add: analyze_lastRepTime countRep_def)

lemma analyze_flag:
  "hasReachedPeakRef (analyzeExerciseForm True t a lms ex sd s)
     \<longleftrightarrow> (repIsCounted ex t a s \<or> hasReachedPeakRef s) \<and> \<not> isInStartingPosition ex a"
  by (auto simp add: analyze_hasReachedPeak countRep_def rearm_def)

lemma runFrames_append:
  "runFrames st ex (xs @ ys) s = runFrames st ex ys (runFrames st ex xs s)"
  by (induction xs arbitrary: s) auto

lemma analyze_repCount:
  "repCount (analyzeExerciseForm True t a lms ex sd s)
     = (if repIsCounted ex t a s then repCounterRef s + 1 else repCount s)"
  by (simp add: analyzeExerciseForm_def rearm_def countRep_def Let_def case_prod_beta)

lemma run_outside_peak:
  assumes "\<forall>f \<in> set fs. \<not> inRange (frameAngle f) (optimalPeak (ranges ex))"
  shows "repCounterRef (runFrames True ex fs s) = repCounterRef s
         \<and> lastRepTimeRef (runFrames True ex fs s) = lastRepTimeRef s
         \<and> repCount (runFrames True ex fs s) = repCount s
         \<and> (\<not> hasReachedPeakRef s \<longrightarrow> \<not> hasReachedPeakRef (runFrames True ex fs s))"
  using assms
proof (induction fs arbitrary: s)
  case Nil
  show ?case by simp
next
  case (Cons f fs)
  obtain t a lms sd where f: "f = (t, a, lms, sd)" by (cases f)
  from Cons.prems have out: "\<not> inRange a (optimalPeak (ranges ex))"
    by (simp add: f frameAngle_def)
  then have nc: "\<not> repIsCounted ex t a s" by (simp add: repIsCounted_iff)
  let ?s = "analyzeExerciseForm True t a lms ex sd s"
  have step: "repCounterRef ?s = repCounterRef s" "lastRepTimeRef ?s = lastRepTimeRef s"
    "repCount ?s = repCount s"
    "\<not> hasReachedPeakRef s \<longrightarrow> \<not> hasReachedPeakRef ?s"
    using nc by (simp_all add: analyze_counter analyze_last analyze_repCount analyze_flag)
  from Cons.prems have "\<forall>g \<in> set fs. \<not> inRange (frameAngle g) (optimalPeak (ranges ex))"
    by simp
  from Cons.IH [OF this, of ?s] step show ?case by (simp add: f)
qed

lemma run_while_held:
  assumes "\<forall>f \<in> set fs. \<not> isInStartingPosition ex (frameAngle f)"
    and "hasReachedPeakRef s"
  shows "repCounterRef (runFrames True ex fs s) = repCounterRef s
         \<and> lastRepTimeRef (runFrames True ex fs s) = lastRepTimeRef s
         \<and> repCount (runFrames True ex fs s) = repCount s
         \<and> hasReachedPeakRef (runFrames True ex fs s)"
  using assms
proof (induction fs arbitrary: s)
  case Nil
  then show ?case by simp
next
  case (Cons f fs)
  obtain t a lms sd where f: "f = (t, a, lms, sd)" by (cases f)
  from Cons.prems have ns: "\<not> isInStartingPosition ex a"
    by (simp add: f frameAngle_def)
  have nc: "\<not> repIsCounted ex t a s" using Cons.prems(2) by (simp add: repIsCounted_iff)
  let ?s = "analyzeExerciseForm True t a lms ex sd s"
  have step: "repCounterRef ?s = repCounterRef s" "lastRepTimeRef ?s = lastRepTimeRef s"
    "repCount ?s = repCount s" "hasReachedPeakRef ?s"
    using nc ns Cons.prems(2)
    by (simp_all add: analyze_counter analyze_last analyze_repCount analyze_flag)
  from Cons.prems have "\<forall>g \<in> set fs. \<not> isInStartingPosition ex (frameAngle g)"
    by simp
  from Cons.IH [OF this step(4)] step show ?case by (simp add: f)
qed

lemma one_rep_per_visit:
  assumes cat: "isLiftingExercise ex \<or> isCurlingExercise ex"
    and armed: "\<not> hasReachedPeakRef s"
    and pre: "\<forall>f \<in> set pre. \<not> inRange (frameAngle f) (optimalPeak (ranges ex))"
    and hold: "hold \<noteq> []"
      "\<forall>f \<in> set hold. inRange (frameAngle f) (optimalPeak (ranges ex))
                       \<and> \<not> isInStartingPosition ex (frameAngle f)"
    and late: "frameTime (hd hold) - lastRepTimeRef s > 1000"
    and post: "\<forall>f \<in> set post. \<not> inRange (frameAngle f) (optimalPeak (ranges ex))"
  shows "repCounterRef (runFrames True ex (pre @ hold @ post) s) = repCounterRef s + 1"
    and "repCount (runFrames True ex (pre @ hold @ post) s) = repCounterRef s + 1"
    and "lastRepTimeRef (runFrames True ex (pre @ hold @ post) s) = frameTime (hd hold)"
proof -
  let ?s1 = "runFrames True ex pre s"
  have s1: "repCounterRef ?s1 = repCounterRef s" "lastRepTimeRef ?s1 = lastRepTimeRef s"
    "\<not> hasReachedPeakRef ?s1"
    using run_outside_peak [OF pre, of s] armed by simp_all
  obtain f rest where h: "hold = f # rest" using hold(1) by (cases hold) auto
  obtain t a lms sd where f: "f = (t, a, lms, sd)" by (cases f)
  have inp: "inRange a (optimalPeak (ranges ex))" and ns: "\<not> isInStartingPosition ex a"
    using hold(2) by (simp_all add: h f frameAngle_def)
  have "t - lastRepTimeRef ?s1 > 1000"
    using late by (simp add: h f frameTime_def s1)
  then have c: "repIsCounted ex t a ?s1"
    using cat inp s1(3) by (auto simp add: repIsCounted_iff)
  let ?s2 = "analyzeExerciseForm True t a lms ex sd ?s1"
  have s2: "repCounterRef ?s2 = repCounterRef s + 1" "repCount ?s2 = repCounterRef s + 1"
    "lastRepTimeRef ?s2 = t" "hasReachedPeakRef ?s2"
    using c ns by (simp_all add: analyze_counter analyze_repCount analyze_last analyze_flag s1)
  let ?s3 = "runFrames True ex rest ?s2"
  have "\<forall>g \<in> set rest. \<not> isInStartingPosition ex (frameAngle g)"
    using hold(2) by (simp add: h)
  from run_while_held [OF this s2(4)]
  have s3: "repCounterRef ?s3 = repCounterRef s + 1" "repCount ?s3 = repCounterRef s + 1"
    "lastRepTimeRef ?s3 = t"
    by (simp_all add: s2)
  have e: "runFrames True ex (pre @ hold @ post) s = runFrames True ex post ?s3"
    by (simp add: runFrames_append h f)
  show "repCounterRef (runFrames True ex (pre @ hold @ post) s) = repCounterRef s + 1"
    unfolding e using run_outside_peak [OF post, of ?s3] s3 by simp
  show "repCount (runFrames True ex (pre @ hold @ post) s) = repCounterRef s + 1"
    unfolding e using run_outside_peak [OF post, of ?s3] s3 by simp
  show "lastRepTimeRef (runFrames True ex (pre @ hold @ post) s) = frameTime (hd hold)"
    unfolding e using run_outside_peak [OF post, of ?s3] s3
    by (simp add: h f frameTime_def)
qed

lemma default_inStart:
  "isInStartingPosition defaultExercise a \<longleftrightarrow> a \<le> 45"
  by (simp add: isInStartingPosition_def default_category default_fields)

lemma default_inPeak:
  "inRange a (optimalPeak (ranges defaultExercise)) \<longleftrightarrow> 90 \<le> a \<and> a \<le> 120"
  by (simp add: inRange_def default_fields)

lemma neck_category:
  "\<not> isLiftingExercise neckRotation" "\<not> isLegExercise neckRotation"
  "\<not> isCurlingExercise neckRotation"
  by (simp_all add: isLiftingExercise_def isLegExercise_def isCurlingExercise_def nameHas_def
        neck_name)

lemma never_counted_without_category:
  assumes "\<not> isLegExercise ex" "\<not> isLiftingExercise ex" "\<not> isCurlingExercise ex"
  shows "repCounterRef (runFrames True ex fs s) = repCounterRef s"
proof (induction fs arbitrary: s)
  case Nil
  show ?case by simp
next
  case (Cons f fs)
  obtain t a lms sd where f: "f = (t, a, lms, sd)" by (cases f)
  have "\<not> repIsCounted ex t a s" using assms by (simp add: repIsCounted_iff)
  then have "repCounterRef (analyzeExerciseForm True t a lms ex sd s) = repCounterRef s"
    by (simp add: analyze_counter)
  with Cons.IH [of "analyzeExerciseForm True t a lms ex sd s"] show ?case by (simp add: f)
qed

text \<open>
  Claim C1 (as amended).  On an analysed frame of a started exercise a repetition is
  counted exactly when the name of the exercise puts it in one of the categories leg,
  lifting or curling, the angle lies in \<open>optimalPeak\<close>, the flag \<open>hasReachedPeak\<close> is
  false and more than 1000 ms have passed since the last counted repetition.  A counted
  frame adds one to the counter, shows the new count and records the clock reading as the
  time of the last repetition; any other frame leaves all three as they were.  The flag is
  set after the frame when a repetition was counted or the flag was set before, unless the
  angle passes the starting-position test.  Consequently, for a started lifting or curling
  exercise that is not a leg exercise and a run of frames that stays outside
  \<open>optimalPeak\<close>, then holds inside it for any length of time at angles that do not pass
  the starting-position test, then leaves it again, the counter goes up by exactly one
  and the time recorded is that of the first frame of the hold, provided the counter was
  armed and that frame comes more than 1000 ms after the last counted repetition.
\<close>

theorem rep_counted_once_per_peak:
  "(repIsCounted ex t angle s \<longleftrightarrow>
      (isLegExercise ex \<or> isLiftingExercise ex \<or> isCurlingExercise ex)
      \<and> inRange angle (optimalPeak (ranges ex)) \<and> \<not> hasReachedPeakRef s
      \<and> t - lastRepTimeRef s > 1000)
   \<and> repCounterRef (analyzeExerciseForm True t angle lms ex sd s)
       = (if repIsCounted ex t angle s then repCounterRef s + 1 else repCounterRef s)
   \<and> repCount (analyzeExerciseForm True t angle lms ex sd s)
       = (if repIsCounted ex t angle s then repCounterRef s + 1 else repCount s)
   \<and> lastRepTimeRef (analyzeExerciseForm True t angle lms ex sd s)
       = (if repIsCounted ex t angle s then t else lastRepTimeRef s)
   \<and> (hasReachedPeakRef (analyzeExerciseForm True t angle lms ex sd s)
        \<longleftrightarrow> (repIsCounted ex t angle s \<or> hasReachedPeakRef s)
             \<and> \<not> isInStartingPosition ex angle)
   \<and> (\<not> isLegExercise ex \<and> (isLiftingExercise ex \<or> isCurlingExercise ex)
        \<and> \<not> hasReachedPeakRef s
        \<and> (\<forall>f \<in> set pre. \<not> inRange (frameAngle f) (optimalPeak (ranges ex)))
        \<and> hold \<noteq> []
        \<and> (\<forall>f \<in> set hold. inRange (frameAngle f) (optimalPeak (ranges ex))
                            \<and> \<not> isInStartingPosition ex (frameAngle f))
        \<and> frameTime (hd hold) - lastRepTimeRef s > 1000
        \<and> (\<forall>f \<in> set post. \<not> inRange (frameAngle f) (optimalPeak (ranges ex)))
       \<longrightarrow> repCounterRef (runFrames True ex (pre @ hold @ post) s) = repCounterRef s + 1
           \<and> repCount (runFrames True ex (pre @ hold @ post) s) = repCounterRef s + 1
           \<and> lastRepTimeRef (runFrames True ex (pre @ hold @ post) s) = frameTime (hd hold))"
  using repIsCounted_iff [of ex t angle s]
        analyze_counter [of t angle lms ex sd s] analyze_repCount [of t angle lms ex sd s]
        analyze_last [of t angle lms ex sd s] analyze_flag [of t angle lms ex sd s]
        one_rep_per_visit [of ex s pre hold post]
  by simp

theorem rep_counted_once_per_peak_witness:
  "isLiftingExercise defaultExercise \<and> \<not> isLegExercise defaultExercise
   \<and> \<not> hasReachedPeakRef (startExercise initialSession)
   \<and> list_all (\<lambda>f. \<not> inRange (frameAngle f) (optimalPeak (ranges defaultExercise)))
         [angleFrame 1000000 20, angleFrame 1000500 60]
   \<and> list_all (\<lambda>f. inRange (frameAngle f) (optimalPeak (ranges defaultExercise))
                     \<and> \<not> isInStartingPosition defaultExercise (frameAngle f))
         [angleFrame 1001000 100, angleFrame 1002000 100, angleFrame 1003000 100,
          angleFrame 1004000 100]
   \<and> frameTime (angleFrame 1001000 100) - lastRepTimeRef (startExercise initialSession) > 1000
   \<and> list_all (\<lambda>f. \<not> inRange (frameAngle f) (optimalPeak (ranges defaultExercise)))
         [angleFrame 1004500 60, angleFrame 1005000 20]
   \<and> repCounterRef (runFrames True defaultExercise
        ([angleFrame 1000000 20, angleFrame 1000500 60]
         @ [angleFrame 1001000 100, angleFrame 1002000 100, angleFrame 1003000 100,
            angleFrame 1004000 100]
         @ [angleFrame 1004500 60, angleFrame 1005000 20])
        (startExercise initialSession)) = 1
   \<and> repCount (runFrames True defaultExercise
        ([angleFrame 1000000 20, angleFrame 1000500 60]
         @ [angleFrame 1001000 100, angleFrame 1002000 100, angleFrame 1003000 100,
            angleFrame 1004000 100]
         @ [angleFrame 1004500 60, angleFrame 1005000 20])
        (startExercise initialSession)) = 1
   \<and> lastRepTimeRef (runFrames True defaultExercise
        ([angleFrame 1000000 20, angleFrame 1000500 60]
         @ [angleFrame 1001000 100, angleFrame 1002000 100, angleFrame 1003000 100,
            angleFrame 1004000 100]
         @ [angleFrame 1004500 60, angleFrame 1005000 20])
        (startExercise initialSession)) = 1001000"
  using rep_counted_once_per_peak [of defaultExercise 0 0 "startExercise initialSession"
          Map.empty Left
          "[angleFrame 1000000 20, angleFrame 1000500 60]"
          "[angleFrame 1001000 100, angleFrame 1002000 100, angleFrame 1003000 100,
            angleFrame 1004000 100]"
          "[angleFrame 1004500 60, angleFrame 1005000 20]"]
  by (simp add: default_category default_inStart default_inPeak angleFrame_def frameAngle_def
        frameTime_def startExercise_def initialSession_def)

text \<open>
  The claim as stated fails: for the started exercise \<open>neckRotation\<close>, whose name is in
  no category, a frame in \<open>optimalPeak\<close> with the flag false and the last repetition long
  ago counts nothing, and neither does the whole run into the peak, through a hold of
  3000 ms and back.
\<close>

theorem uncategorised_exercise_counterexample:
  "inRange 70 (optimalPeak (ranges neckRotation))
   \<and> \<not> hasReachedPeakRef (startExercise initialSession)
   \<and> 1001000 - lastRepTimeRef (startExercise initialSession) > 1000
   \<and> repCounterRef (analyzeExerciseForm True 1001000 70 Map.empty neckRotation Left
        (startExercise initialSession)) = repCounterRef (startExercise initialSession)
   \<and> repCounterRef (runFrames True neckRotation
        [angleFrame 1000000 10, angleFrame 1000500 40, angleFrame 1001000 70,
         angleFrame 1002000 70, angleFrame 1003000 70, angleFrame 1004000 70,
         angleFrame 1004500 40, angleFrame 1005000 10]
        (startExercise initialSession)) = repCounterRef (startExercise initialSession)"
proof -
  have a: "inRange 70 (optimalPeak (ranges neckRotation))"
    by (simp add: inRange_def neckRotation_def)
  have b: "\<not> hasReachedPeakRef (startExercise initialSession)"
    "1001000 - lastRepTimeRef (startExercise initialSession) > 1000"
    by (simp_all add: startExercise_def initialSession_def)
  have c: "repCounterRef (analyzeExerciseForm True 1001000 70 Map.empty neckRotation Left
        (startExercise initialSession)) = repCounterRef (startExercise initialSession)"
    by (simp add: analyze_counter repIsCounted_iff neck_category)
  show ?thesis
    using a b c never_counted_without_category [OF neck_category(2,1,3)] by blast
qed

section \<open>Leg exercises\<close>

lemma leg_always_inStart:
  assumes "isLegExercise ex"
    and "fst (startingPosition (ranges ex)) \<le> snd (startingPosition (ranges ex))"
  shows "isInStartingPosition ex angle"
  using assms by (auto simp add: isInStartingPosition_def)

lemma legRaise_name: "toLowerCase (exerciseName legRaiseExercise) = ''leg raise''"
  by (simp add: legRaiseExercise_def toLowerCase_def lowerChar_def)

lemma legRaise_isLeg: "isLegExercise legRaiseExercise"
  by (simp add: isLegExercise_def nameHas_def legRaise_name)

lemma legRaise_fields:
  "startingPosition (ranges legRaiseExercise) = (160, 180)"
  "optimalPeak (ranges legRaiseExercise) = (90, 120)"
  by (simp_all add: legRaiseExercise_def)

lemma leg_frame:
  assumes "isLegExercise ex"
    and "fst (startingPosition (ranges ex)) \<le> snd (startingPosition (ranges ex))"
    and "\<not> hasReachedPeakRef s"
  shows "repCounterRef (analyzeExerciseForm True t a lms ex sd s)
           = (if inRange a (optimalPeak (ranges ex)) \<and> t - lastRepTimeRef s > 1000
              then repCounterRef s + 1 else repCounterRef s)"
    and "lastRepTimeRef (analyzeExerciseForm True t a lms ex sd s)
           = (if inRange a (optimalPeak (ranges ex)) \<and> t - lastRepTimeRef s > 1000
              then t else lastRepTimeRef s)"
    and "\<not> hasReachedPeakRef (analyzeExerciseForm True t a lms ex sd s)"
  using assms(1,3) leg_always_inStart [OF assms(1,2), of a]
  by (simp_all add: analyze_counter analyze_last analyze_flag repIsCounted_iff)

lemma leg_run_held:
  assumes "isLegExercise ex"
    and "fst (startingPosition (ranges ex)) \<le> snd (startingPosition (ranges ex))"
    and "\<not> hasReachedPeakRef s"
    and "\<forall>f \<in> set fs. inRange (frameAngle f) (optimalPeak (ranges ex))"
  shows "repCounterRef (runFrames True ex fs s)
           = repCounterRef s + debounceElapses (lastRepTimeRef s) (map frameTime fs)"
  using assms(3,4)
proof (induction fs arbitrary: s)
  case Nil
  show ?case by simp
next
  case (Cons f fs)
  obtain t a lms sd where f: "f = (t, a, lms, sd)" by (cases f)
  from Cons.prems(2) have inp: "inRange a (optimalPeak (ranges ex))"
    by (simp add: f frameAngle_def)
  let ?s = "analyzeExerciseForm True t a lms ex sd s"
  note step = leg_frame [OF assms(1,2) Cons.prems(1), of t a lms sd]
  from Cons.prems(2) have "\<forall>g \<in> set fs. inRange (frameAngle g) (optimalPeak (ranges ex))"
    by simp
  from Cons.IH [OF step(3) this] show ?case
    using inp by (simp add: f frameTime_def step(1,2))
qed

text \<open>
  Claim C9.  For a leg exercise whose starting-position bounds are in order, the
  starting-position test holds at every angle; so the flag \<open>hasReachedPeak\<close> is false
  after every analysed frame, and on the next frame a repetition is counted exactly when
  the angle is in \<open>optimalPeak\<close> and more than 1000 ms have passed since the last counted
  one, whose time is then replaced by the time of that frame.  So along any run of frames
  held inside \<open>optimalPeak\<close> the counter goes up once each time the interval of 1000 ms
  elapses since the frame that was counted last.
\<close>

theorem leg_exercise_recounts_while_held:
  assumes "isLegExercise ex"
    and "fst (startingPosition (ranges ex)) \<le> snd (startingPosition (ranges ex))"
  shows "isInStartingPosition ex angle
         \<and> \<not> hasReachedPeakRef (analyzeExerciseForm True t angle lms ex sd s)
         \<and> repCounterRef (analyzeExerciseForm True t' angle' lms' ex sd'
              (analyzeExerciseForm True t angle lms ex sd s))
            = (if inRange angle' (optimalPeak (ranges ex))
                  \<and> t' - lastRepTimeRef (analyzeExerciseForm True t angle lms ex sd s) > 1000
               then repCounterRef (analyzeExerciseForm True t angle lms ex sd s) + 1
               else repCounterRef (analyzeExerciseForm True t angle lms ex sd s))
         \<and> lastRepTimeRef (analyzeExerciseForm True t' angle' lms' ex sd'
              (analyzeExerciseForm True t angle lms ex sd s))
            = (if inRange angle' (optimalPeak (ranges ex))
                  \<and> t' - lastRepTimeRef (analyzeExerciseForm True t angle lms ex sd s) > 1000
               then t'
               else lastRepTimeRef (analyzeExerciseForm True t angle lms ex sd s))
         \<and> ((\<forall>f \<in> set fs. inRange (frameAngle f) (optimalPeak (ranges ex))) \<longrightarrow>
              repCounterRef (runFrames True ex fs (analyzeExerciseForm True t angle lms ex sd s))
                = repCounterRef (analyzeExerciseForm True t angle lms ex sd s)
                  + debounceElapses
                      (lastRepTimeRef (analyzeExerciseForm True t angle lms ex sd s))
                      (map frameTime fs))"
proof -
  let ?s1 = "analyzeExerciseForm True t angle lms ex sd s"
  have a: "isInStartingPosition ex angle" by (rule leg_always_inStart [OF assms])
  have b: "\<not> hasReachedPeakRef ?s1"
    by (simp add: analyze_flag a)
  note step = leg_frame [OF assms b, of t' angle' lms' sd']
  have r: "(\<forall>f \<in> set fs. inRange (frameAngle f) (optimalPeak (ranges ex))) \<longrightarrow>
              repCounterRef (runFrames True ex fs ?s1)
                = repCounterRef ?s1 + debounceElapses (lastRepTimeRef ?s1) (map frameTime fs)"
    using leg_run_held [OF assms b] by blast
  show ?thesis
    using a b step(1,2) r by blast
qed

lemma legRaise_step:
  "\<not> hasReachedPeakRef s \<Longrightarrow> t - lastRepTimeRef s > 1000 \<Longrightarrow>
   repCounterRef (analyzeExerciseForm True t 100 lms legRaiseExercise sd s) = repCounterRef s + 1
   \<and> lastRepTimeRef (analyzeExerciseForm True t 100 lms legRaiseExercise sd s) = t
   \<and> \<not> hasReachedPeakRef (analyzeExerciseForm True t 100 lms legRaiseExercise sd s)"
  by (simp add: analyze_counter analyze_last analyze_flag repIsCounted_iff legRaise_isLeg
        legRaise_fields inRange_def leg_always_inStart)

theorem leg_exercise_recounts_while_held_witness:
  "isLegExercise legRaiseExercise
   \<and> fst (startingPosition (ranges legRaiseExercise))
       \<le> snd (startingPosition (ranges legRaiseExercise))
   \<and> isInStartingPosition legRaiseExercise 100
   \<and> inRange 100 (optimalPeak (ranges legRaiseExercise))
   \<and> repCounterRef (analyzeExerciseForm True 1001000 100 Map.empty legRaiseExercise Left
        (startExercise initialSession)) = 1
   \<and> lastRepTimeRef (analyzeExerciseForm True 1001000 100 Map.empty legRaiseExercise Left
        (startExercise initialSession)) = 1001000
   \<and> repCounterRef (analyzeExerciseForm True 1001500 100 Map.empty legRaiseExercise Left
        (analyzeExerciseForm True 1001000 100 Map.empty legRaiseExercise Left
          (startExercise initialSession))) = 1
   \<and> repCounterRef (analyzeExerciseForm True 1002001 100 Map.empty legRaiseExercise Left
        (analyzeExerciseForm True 1001000 100 Map.empty legRaiseExercise Left
          (startExercise initialSession))) = 2
   \<and> lastRepTimeRef (analyzeExerciseForm True 1002001 100 Map.empty legRaiseExercise Left
        (analyzeExerciseForm True 1001000 100 Map.empty legRaiseExercise Left
          (startExercise initialSession))) = 1002001
   \<and> list_all (\<lambda>f. inRange (frameAngle f) (optimalPeak (ranges legRaiseExercise)))
        [angleFrame 1001500 100, angleFrame 1002001 100, angleFrame 1002500 100,
         angleFrame 1003002 100, angleFrame 1003500 100, angleFrame 1004000 100]
   \<and> repCounterRef (runFrames True legRaiseExercise
        [angleFrame 1001500 100, angleFrame 1002001 100, angleFrame 1002500 100,
         angleFrame 1003002 100, angleFrame 1003500 100, angleFrame 1004000 100]
        (analyzeExerciseForm True 1001000 100 Map.empty legRaiseExercise Left
          (startExercise initialSession))) = 3"
proof -
  let ?s0 = "startExercise initialSession"
  let ?s1 = "analyzeExerciseForm True 1001000 100 Map.empty legRaiseExercise Left ?s0"
  let ?fs = "[angleFrame 1001500 100, angleFrame 1002001 100, angleFrame 1002500 100,
         angleFrame 1003002 100, angleFrame 1003500 100, angleFrame 1004000 100]"
  have s0: "\<not> hasReachedPeakRef ?s0" "lastRepTimeRef ?s0 = 0" "repCounterRef ?s0 = 0"
    by (simp_all add: startExercise_def initialSession_def)
  have s1: "repCounterRef ?s1 = 1" "lastRepTimeRef ?s1 = 1001000" "\<not> hasReachedPeakRef ?s1"
    using legRaise_step [of ?s0 1001000 Map.empty Left] s0 by simp_all
  have ord: "fst (startingPosition (ranges legRaiseExercise))
               \<le> snd (startingPosition (ranges legRaiseExercise))"
    by (simp add: legRaise_fields)
  show ?thesis
    using leg_exercise_recounts_while_held [OF legRaise_isLeg ord,
            of 100 1001000 Map.empty Left ?s0 1001500 100 Map.empty Left ?fs]
          leg_exercise_recounts_while_held [OF legRaise_isLeg ord,
            of 100 1001000 Map.empty Left ?s0 1002001 100 Map.empty Left ?fs]
    by (simp add: legRaise_isLeg legRaise_fields inRange_def s1 angleFrame_def frameAngle_def
          frameTime_def)
qed

section \<open>Frames with missing or poorly visible landmarks\<close>

lemma analyzeAt_missing:
  "anglePointMissing lms pts \<Longrightarrow> analyzeAt cl t lms ex sd pts s = s"
  by (auto simp add: anglePointMissing_def analyzeAt_def split: option.splits)

lemma calculateAngle_visibility [simp]:
  "calculateAngle (a\<lparr>visibility := u\<rparr>) b c = calculateAngle a b c"
  "calculateAngle a (b\<lparr>visibility := u\<rparr>) c = calculateAngle a b c"
  "calculateAngle a b (c\<lparr>visibility := u\<rparr>) = calculateAngle a b c"
  by (simp_all add: calculateAngle_def)

lemma movementScore_visibility [simp]:
  "movementScore (h\<lparr>visibility := u1\<rparr>) (sh\<lparr>visibility := u2\<rparr>) (e\<lparr>visibility := u3\<rparr>)
     (w\<lparr>visibility := u4\<rparr>) = movementScore h sh e w"
  by (simp add: movementScore_def)

lemma movementScore_orElse_visibility:
  "movementScore (orElse (map_option (\<lambda>q. q\<lparr>visibility := u0\<rparr>) h) (sh\<lparr>visibility := u1\<rparr>))
     (sh\<lparr>visibility := u1\<rparr>) (e\<lparr>visibility := u2\<rparr>) (w\<lparr>visibility := u3\<rparr>)
   = movementScore (orElse h sh) sh e w"
  by (cases h) (simp_all add: orElse_def movementScore_def)

lemma armScores_visibility: "armScores (withVisibility v lms) = armScores lms"
  by (simp add: armScores_def withVisibility_def movementScore_orElse_visibility
        split: option.splits)

lemma detectActiveArm_visibility:
  "detectActiveArm d (withVisibility v lms) = detectActiveArm d lms"
  by (simp add: detectActiveArm_def armScores_visibility)

lemma present_visibility:
  "length (filter (\<lambda>p. p \<noteq> None) (map (withVisibility v lms) ks))
     = length (filter (\<lambda>p. p \<noteq> None) (map lms ks))"
  by (induction ks) (simp_all add: withVisibility_def)

lemma checkFails_visibility:
  "checkFails (withVisibility v lms) sd moving c = checkFails lms sd moving c"
  unfolding checkFails_def Let_def present_visibility
  by (simp add: withVisibility_def split: option.splits)

lemma runFormChecks_visibility:
  "runFormChecks (withVisibility v lms) sd moving cs acc = runFormChecks lms sd moving cs acc"
  by (simp add: runFormChecks_def applyFormCheck_def [abs_def] checkFails_visibility)

lemma analyzeExerciseForm_visibility:
  "analyzeExerciseForm st t a (withVisibility v lms) ex sd s = analyzeExerciseForm st t a lms ex sd s"
  by (simp add: analyzeExerciseForm_def runFormChecks_visibility)

lemma landmarkAt_visibility:
  "landmarkAt (withVisibility v lms) i
     = (case i of None \<Rightarrow> None
        | Some k \<Rightarrow> map_option (\<lambda>p. p\<lparr>visibility := v k\<rparr>) (lms k))"
  by (simp add: landmarkAt_def withVisibility_def split: option.splits)

lemma analyzeAt_visibility:
  "analyzeAt cl t (withVisibility v lms) ex sd pts s = analyzeAt cl t lms ex sd pts s"
  unfolding analyzeAt_def analyzeExerciseForm_visibility landmarkAt_visibility
  by (simp add: landmarkAt_def split: option.splits)

lemma analyzeArmExercise_visibility:
  "analyzeArmExercise cl t (withVisibility v lms) s = analyzeArmExercise cl t lms s"
  by (simp add: analyzeArmExercise_def detectActiveArm_visibility analyzeAt_visibility)

lemma legScore_visibility [simp]:
  "legScore (sh\<lparr>visibility := u1\<rparr>) (h\<lparr>visibility := u2\<rparr>) (k\<lparr>visibility := u3\<rparr>)
     (a\<lparr>visibility := u4\<rparr>) = legScore sh h k a"
  by (simp add: legScore_def)

lemma detectActiveLeg_visibility:
  "detectActiveLeg d (withVisibility v lms) = detectActiveLeg d lms"
  by (simp add: detectActiveLeg_def withVisibility_def split: option.splits)

lemma analyzeLegExercise_visibility:
  "analyzeLegExercise cl t (withVisibility v lms) s = analyzeLegExercise cl t lms s"
  by (simp add: analyzeLegExercise_def detectActiveLeg_visibility analyzeAt_visibility Let_def
        split: option.splits)

lemma onResults_visibility:
  "onResults cl t (Some (withVisibility v lms)) s = onResults cl t (Some lms) s"
  by (simp add: onResults_def analyzeLegExercise_visibility analyzeArmExercise_visibility)

lemma onResults_missing:
  assumes "resolvedAnglePoints cl lms = Some pts" "anglePointMissing lms pts"
  shows "onResults cl t (Some lms) s = s"
  using assms
  by (auto simp add: onResults_def resolvedAnglePoints_def analyzeLegExercise_def
        analyzeArmExercise_def analyzeAt_missing Let_def split: if_splits option.splits)

lemma onResults_throw:
  assumes "resolvedAnglePoints cl lms = None"
  shows "onResults cl t (Some lms) s = s"
  using assms
  by (auto simp add: onResults_def resolvedAnglePoints_def analyzeLegExercise_def Let_def
        split: if_splits option.splits)

section \<open>Angles of axis-parallel limbs\<close>

lemma atan2_axes:
  "0 < y \<Longrightarrow> atan2 y 0 = pi / 2"
  "0 < x \<Longrightarrow> atan2 0 x = 0"
  by (simp_all add: atan2_def)

lemma angle_perpendicular:
  assumes "lm_x a = lm_x b" "lm_y b < lm_y a" "lm_y c = lm_y b" "lm_x b < lm_x c"
  shows "calculateAngle a b c = 90"
  using assms by (simp add: calculateAngle_def atan2_def Let_def)

lemma angle_same_direction:
  assumes "lm_x a = lm_x b" "lm_y b < lm_y a" "lm_x c = lm_x b" "lm_y b < lm_y c"
  shows "calculateAngle a b c = 0"
  using assms by (simp add: calculateAngle_def atan2_def Let_def)

lemma lowVisibility_detect: "detectActiveArm Left lowVisibilityFrame = Left"
  by (simp add: detectActiveArm_def armScores_def lowVisibilityFrame_def orElse_def
        movementScore_def angle_perpendicular angle_same_direction pt_def chooseArm_def Let_def)

lemma default_bodyPart: "getExerciseBodyPart defaultExercise = Legs"
  by (simp add: getExerciseBodyPart_def defaultExercise_def)

lemma default_points: "anglePoints defaultExercise = [23, 11, 13]"
  by (simp add: defaultExercise_def)

lemma noExercise_inUse: "exerciseInUse noExerciseLoaded = defaultExercise"
  by (simp add: exerciseInUse_def noExerciseLoaded_def)

lemma upper_body_leg_detection:
  "lms 25 = None \<Longrightarrow> detectActiveLeg d lms = Some d"
  by (simp add: detectActiveLeg_def split: option.splits)

lemma lowVisibility_points:
  "resolvedAnglePoints noExerciseLoaded lowVisibilityFrame = Some [23, 11, 13]"
  "resolvedAnglePoints noExerciseLoaded (lowVisibilityFrame(11 := None)) = Some [23, 11, 13]"
proof -
  have d: "cl_detectedArm noExerciseLoaded = Left"
    by (simp add: noExerciseLoaded_def)
  show "resolvedAnglePoints noExerciseLoaded lowVisibilityFrame = Some [23, 11, 13]"
    "resolvedAnglePoints noExerciseLoaded (lowVisibilityFrame(11 := None)) = Some [23, 11, 13]"
    by (simp_all add: resolvedAnglePoints_def noExercise_inUse default_bodyPart default_points
          upper_body_leg_detection lowVisibilityFrame_def d adjustLegPoints_def)
qed

lemma lowVisibility_analysis:
  "onResults noExerciseLoaded 1001000 (Some lowVisibilityFrame) (startExercise initialSession)
   = analyzeExerciseForm True 1001000 90 lowVisibilityFrame defaultExercise Left
       ((startExercise initialSession)\<lparr>armAngle := 90\<rparr>)"
proof -
  have d: "detectActiveLeg (cl_detectedArm noExerciseLoaded) lowVisibilityFrame = Some Left"
    by (simp add: upper_body_leg_detection lowVisibilityFrame_def noExerciseLoaded_def)
  have p: "lowVisibilityFrame 23 = Some (pt 0.6 0.8 0.9)"
    "lowVisibilityFrame 11 = Some (pt 0.6 0.4 0.1)"
    "lowVisibilityFrame 13 = Some (pt 0.75 0.4 0.9)"
    by (simp_all add: lowVisibilityFrame_def)
  have "analyzeLegExercise noExerciseLoaded 1001000 lowVisibilityFrame
          (startExercise initialSession)
        = Some (analyzeExerciseForm True 1001000 90 lowVisibilityFrame defaultExercise Left
            ((startExercise initialSession)\<lparr>armAngle := 90\<rparr>))"
    unfolding analyzeLegExercise_def noExercise_inUse d Let_def default_points
      adjustLegPoints_def analyzeAt_def
    by (simp add: landmarkAt_def elemAt_def p angle_perpendicular pt_def noExerciseLoaded_def)
  then show ?thesis
    by (simp add: onResults_def noExercise_inUse default_bodyPart)
qed

lemma lowVisibility_no_rule_fails:
  "failingChecks lowVisibilityFrame Left defaultExercise 90 = []"
  by (simp add: failingChecks_def default_checks checkFails_def
        adjustCheckKeypoints_def mirrorCheckIndex_def lowVisibilityFrame_def sideIdx_def
        pt_def Let_def)

text \<open>
  Claim C2 (as amended).  When one of the three landmarks that the frame callback reads
  for the primary angle is absent from the frame, the analysis of the frame leaves the
  whole session as it was: the rep counter and the flag, and also the displayed form
  verdict and message, which keep their previous values.  The three landmarks are those at
  the configured points after the side adjustment of the path the exercise takes, the leg
  path or the arm path; the session is also left as it was when no pose is delivered or the
  leg detection throws.  The visibility of a landmark is not consulted: the analysis of a
  frame is the same whatever the visibilities in it.
\<close>

theorem missing_angle_point_leaves_session:
  "(resolvedAnglePoints cl lms = Some pts \<and> anglePointMissing lms pts
      \<longrightarrow> onResults cl t (Some lms) s = s)
   \<and> (resolvedAnglePoints cl lms = None \<longrightarrow> onResults cl t (Some lms) s = s)
   \<and> onResults cl t None s = s
   \<and> onResults cl t (Some (withVisibility v lms)) s = onResults cl t (Some lms) s
   \<and> (anglePointMissing lms
        (adjustArmPoints (detectActiveArm (cl_detectedArm cl) lms) (anglePoints (exerciseInUse cl)))
      \<longrightarrow> analyzeArmExercise cl t lms s = s)
   \<and> analyzeArmExercise cl t (withVisibility v lms) s = analyzeArmExercise cl t lms s"
proof -
  have a: "resolvedAnglePoints cl lms = Some pts \<and> anglePointMissing lms pts
             \<longrightarrow> onResults cl t (Some lms) s = s"
    using onResults_missing by blast
  have b: "resolvedAnglePoints cl lms = None \<longrightarrow> onResults cl t (Some lms) s = s"
    using onResults_throw by blast
  have c: "onResults cl t None s = s"
    by (simp add: onResults_def)
  have d: "anglePointMissing lms
        (adjustArmPoints (detectActiveArm (cl_detectedArm cl) lms) (anglePoints (exerciseInUse cl)))
      \<longrightarrow> analyzeArmExercise cl t lms s = s"
    by (simp add: analyzeArmExercise_def analyzeAt_missing)
  show ?thesis
    using a b c d onResults_visibility [of cl t v lms s]
      analyzeArmExercise_visibility [of cl t v lms s]
    by blast
qed

theorem missing_angle_point_leaves_session_witness:
  "resolvedAnglePoints noExerciseLoaded (lowVisibilityFrame(11 := None)) = Some [23, 11, 13]
   \<and> anglePointMissing (lowVisibilityFrame(11 := None)) [23, 11, 13]
   \<and> onResults noExerciseLoaded 1001000 (Some (lowVisibilityFrame(11 := None)))
        ((startExercise initialSession)\<lparr>isCorrectForm := Some True\<rparr>)
       = (startExercise initialSession)\<lparr>isCorrectForm := Some True\<rparr>"
proof -
  have m: "anglePointMissing (lowVisibilityFrame(11 := None)) [23, 11, 13]"
    by (simp add: anglePointMissing_def landmarkAt_def elemAt_def)
  show ?thesis
    using missing_angle_point_leaves_session
            [of noExerciseLoaded "lowVisibilityFrame(11 := None)" "[23, 11, 13]" 1001000
                "(startExercise initialSession)\<lparr>isCorrectForm := Some True\<rparr>"]
          m lowVisibility_points(2)
    by simp
qed

text \<open>
  The claim as stated fails: a frame whose vertex landmark is present with visibility 0.1
  is analysed like any other; here, with the default exercise in use, it is counted as a
  repetition and the form is reported as correct.
\<close>

theorem low_visibility_counterexample:
  "resolvedAnglePoints noExerciseLoaded lowVisibilityFrame = Some [23, 11, 13]
   \<and> map_option visibility (lowVisibilityFrame 11) = Some 0.1
   \<and> isCorrectForm (onResults noExerciseLoaded 1001000 (Some lowVisibilityFrame)
        (startExercise initialSession)) = Some True
   \<and> repCounterRef (startExercise initialSession) = 0
   \<and> repCounterRef (onResults noExerciseLoaded 1001000 (Some lowVisibilityFrame)
        (startExercise initialSession)) = 1
   \<and> repCount (onResults noExerciseLoaded 1001000 (Some lowVisibilityFrame)
        (startExercise initialSession)) = 1
   \<and> hasReachedPeakRef (onResults noExerciseLoaded 1001000 (Some lowVisibilityFrame)
        (startExercise initialSession))"
proof -
  have v: "map_option visibility (lowVisibilityFrame 11) = Some 0.1"
    by (simp add: lowVisibilityFrame_def pt_def)
  have s0: "repCounterRef (startExercise initialSession) = 0"
    by (simp add: startExercise_def initialSession_def)
  have c: "repIsCounted defaultExercise 1001000 90
             ((startExercise initialSession)\<lparr>armAngle := 90\<rparr>)"
    by (simp add: repIsCounted_iff default_category default_fields inRange_def
          startExercise_def initialSession_def)
  have f: "isCorrectForm (onResults noExerciseLoaded 1001000 (Some lowVisibilityFrame)
        (startExercise initialSession)) = Some True"
    unfolding lowVisibility_analysis analyze_isCorrectForm runFormChecks_last
      failingChecks_def [symmetric]
    by (simp add: lowVisibility_no_rule_fails)
  have n: "repCounterRef (onResults noExerciseLoaded 1001000 (Some lowVisibilityFrame)
        (startExercise initialSession)) = 1"
    unfolding lowVisibility_analysis analyze_counter using c by (simp add: s0)
  have n': "repCount (onResults noExerciseLoaded 1001000 (Some lowVisibilityFrame)
        (startExercise initialSession)) = 1"
    unfolding lowVisibility_analysis analyze_repCount using c by (simp add: s0)
  have h: "hasReachedPeakRef (onResults noExerciseLoaded 1001000
        (Some lowVisibilityFrame) (startExercise initialSession))"
    unfolding lowVisibility_analysis analyze_flag using c
    by (simp add: default_inStart)
  show ?thesis using lowVisibility_points(1) v s0 f n n' h by blast
qed

section \<open>Hysteresis of the side detection\<close>

lemma chooseArm_positive_average:
  assumes "0 < (l + r) / 2"
  shows "(\<bar>l - r\<bar> / ((l + r) / 2) < 0.15 \<longrightarrow> chooseArm d l r = d)
         \<and> (\<bar>l - r\<bar> / ((l + r) / 2) > 0.15 \<longrightarrow>
              chooseArm d l r = (if r > l then Right else Left) \<and> l \<noteq> r)"
proof -
  have a: "\<bar>l - r\<bar> / ((l + r) / 2) < 0.15 \<longleftrightarrow> \<bar>l - r\<bar> < 0.15 * ((l + r) / 2)"
    using assms by (simp add: field_simps)
  have b: "\<bar>l - r\<bar> / ((l + r) / 2) > 0.15 \<longleftrightarrow> \<bar>l - r\<bar> > 0.15 * ((l + r) / 2)"
    using assms by (simp add: field_simps)
  show ?thesis
    unfolding a b using assms by (auto simp add: chooseArm_def Let_def)
qed

lemma hutton: "2 * arctan (1 / 3) + arctan (1 / 7) = pi / 4"
proof -
  have "2 * arctan (1 / 3) = arctan (3 / 4)"
    using arctan_double [of "1 / 3"] by (simp add: power2_eq_square)
  moreover have "arctan (3 / 4) + arctan (1 / 7) = arctan 1"
    using arctan_add [of "3 / 4" "1 / 7"] by simp
  ultimately show ?thesis by (simp add: arctan_one)
qed

lemma arctan_seventh: "pi / 28 < arctan (1 / 7) \<and> arctan (1 / 7) < pi / 20"
proof -
  have c: "0 < arctan (3 / 79)" by simp
  have "(3 / 79 :: real) < 1 / 7" by simp
  then have "arctan (3 / 79) < arctan (1 / 7)" by (simp only: arctan_less_iff)
  with machin_Euler c show ?thesis by linarith
qed

lemma restAngle_bounds: "18 < restAngle \<and> restAngle < 20"
proof -
  have a: "pi / 10 < arctan (1 / 3)" "arctan (1 / 3) < 3 * pi / 28"
    using hutton arctan_seventh by linarith+
  have "18 * pi < arctan (1 / 3) * 180" "arctan (1 / 3) * 180 < 20 * pi"
    using a pi_gt_zero by linarith+
  then have "18 < arctan (1 / 3) * 180 / pi" "arctan (1 / 3) * 180 / pi < 20"
    using pi_gt_zero by (simp_all add: pos_less_divide_eq pos_divide_less_eq)
  then show ?thesis by (simp add: restAngle_def)
qed

lemma arctan_three: "arctan 3 = pi / 2 - arctan (1 / 3)"
  using arctan_inverse [of 3] by simp

lemma angle_resting:
  assumes "lm_x a = lm_x b" "lm_y b < lm_y a"
    and "lm_x c \<noteq> lm_x b" "lm_y c - lm_y b = 3 * \<bar>lm_x c - lm_x b\<bar>"
  shows "calculateAngle a b c = restAngle"
proof -
  have ya: "atan2 (lm_y a - lm_y b) (lm_x a - lm_x b) = pi / 2"
    using assms(1,2) by (simp add: atan2_def)
  have pos: "0 < arctan (1 / 3)" by simp
  have lt: "arctan (1 / 3) < pi / 2" by (rule arctan_ubound)
  have "arctan (1 / 3) * 180 < 180 * pi"
    using lt pi_gt_zero by linarith
  then have "arctan (1 / 3) * 180 / pi < 180"
    using pi_gt_zero by (simp add: pos_divide_less_eq)
  then have small: "\<not> arctan (1 / 3) * 180 / pi > 180"
    by simp
  show ?thesis
  proof (cases "lm_x b < lm_x c")
    case True
    then have "(lm_y c - lm_y b) / (lm_x c - lm_x b) = 3"
      using assms(4) by (simp add: field_simps)
    then have "atan2 (lm_y c - lm_y b) (lm_x c - lm_x b) = arctan 3"
      using True by (simp add: atan2_def)
    then have "atan2 (lm_y c - lm_y b) (lm_x c - lm_x b)
                 - atan2 (lm_y a - lm_y b) (lm_x a - lm_x b) = - arctan (1 / 3)"
      by (simp add: ya arctan_three)
    then show ?thesis
      unfolding calculateAngle_def Let_def restAngle_def using pos small pi_gt_zero
      by (simp add: abs_mult abs_divide)
  next
    case False
    with assms(3) have neg: "lm_x c < lm_x b" by simp
    then have "(lm_y c - lm_y b) / (lm_x c - lm_x b) = - 3"
      using assms(4) by (simp add: field_simps)
    moreover have "0 \<le> lm_y c - lm_y b" using assms(4) by simp
    ultimately have "atan2 (lm_y c - lm_y b) (lm_x c - lm_x b) = arctan (- 3) + pi"
      using neg by (simp add: atan2_def)
    then have "atan2 (lm_y c - lm_y b) (lm_x c - lm_x b)
                 - atan2 (lm_y a - lm_y b) (lm_x a - lm_x b) = arctan (1 / 3)"
      by (simp add: ya arctan_three arctan_minus)
    then show ?thesis
      unfolding calculateAngle_def Let_def restAngle_def using pos small pi_gt_zero
      by (simp add: abs_mult abs_divide)
  qed
qed

lemma restingArms_scores:
  "armScores restingArmsFrame = Some (20 - restAngle - 2.1, 20 - restAngle - 2.1)"
proof -
  have l: "calculateAngle (pt 0.6 0.7 0.9) (pt 0.6 0.1 0.9) (pt 0.7 0.4 0.9) = restAngle"
    by (rule angle_resting) (simp_all add: pt_def)
  have r: "calculateAngle (pt 0.4 0.7 0.9) (pt 0.4 0.1 0.9) (pt 0.3 0.4 0.9) = restAngle"
    by (rule angle_resting) (simp_all add: pt_def)
  have p: "restingArmsFrame 11 = Some (pt 0.6 0.1 0.9)" "restingArmsFrame 13 = Some (pt 0.7 0.4 0.9)"
    "restingArmsFrame 15 = Some (pt 0.6 0.8 0.9)" "restingArmsFrame 23 = Some (pt 0.6 0.7 0.9)"
    "restingArmsFrame 12 = Some (pt 0.4 0.1 0.9)" "restingArmsFrame 14 = Some (pt 0.3 0.4 0.9)"
    "restingArmsFrame 16 = Some (pt 0.4 0.8 0.9)" "restingArmsFrame 24 = Some (pt 0.4 0.7 0.9)"
    by (simp_all add: restingArmsFrame_def)
  show ?thesis
    unfolding armScores_def p option.case orElse_def movementScore_def Let_def l r
    using restAngle_bounds by (simp add: pt_def)
qed

text \<open>
  Claim C7.  The detector is meant to keep the previous side when the two movement scores
  are close.  On the frame \<open>restingArmsFrame\<close>, with both arms at rest and mirror images
  of each other, the two scores are equal and negative; their relative difference is 0,
  below the threshold 0.15, and yet with the right side tracked before, the detector
  returns the left side: the test compares the difference with 0.15 times the average,
  which is negative here.
\<close>

theorem detectActiveArm_switches_at_equal_scores:
  "(case armScores restingArmsFrame of
      None \<Rightarrow> False
    | Some (l, r) \<Rightarrow> l = r \<and> (l + r) / 2 < 0 \<and> \<bar>l - r\<bar> / ((l + r) / 2) < 0.15)
   \<and> detectActiveArm Right restingArmsFrame = Left"
  using restAngle_bounds
  by (simp add: detectActiveArm_def restingArms_scores chooseArm_def Let_def)

section \<open>The default exercise in the frame callback\<close>

lemma onResults_default:
  "onResults \<lparr>cl_exerciseStarted = st, cl_detectedArm = d, cl_currentExercise = None\<rparr> t
     (Some lms) s
   = (case detectActiveLeg d lms of
        None \<Rightarrow> s
      | Some detectedLegLocal \<Rightarrow>
          analyzeAt \<lparr>cl_exerciseStarted = st, cl_detectedArm = d, cl_currentExercise = None\<rparr>
            t lms defaultExercise detectedLegLocal
            (adjustLegPoints detectedLegLocal (anglePoints defaultExercise)) s)"
  by (simp add: onResults_def exerciseInUse_def default_bodyPart analyzeLegExercise_def
        split: option.splits)

lemma analyze_lastState:
  "lastStateRef (analyzeExerciseForm True t a lms ex sd s) = phaseState ex a"
  by (simp add: analyzeExerciseForm_def Let_def case_prod_beta classifyPhase_state)

lemma default_lastState:
  "lastStateRef (analyzeExerciseForm True t a lms defaultExercise sd s)
     = (if (90 \<le> a \<and> a \<le> 120) \<or> 60 < a then ''lifting'' else ''ready'')"
  by (simp add: analyze_lastState lifting_phaseState default_category default_fields inRange_def)

lemma default_corrected_lastState:
  "lastStateRef (analyzeExerciseForm True t a lms
       (defaultExercise\<lparr>thresholds := correctThresholds (thresholds defaultExercise)\<rparr>) sd s)
     = (if (90 \<le> a \<and> a \<le> 120) \<or> 45 < a then ''lifting'' else ''ready'')"
  by (simp add: analyze_lastState lifting_phaseState default_corrected_category
        default_corrected default_fields(1,2) inRange_def)

lemma arctan_third: "pi / 10 < arctan (1 / 3) \<and> arctan (1 / 3) < 3 * pi / 28"
  using hutton arctan_seventh by linarith

lemma arctan_three_quarters: "arctan (3 / 4) = 2 * arctan (1 / 3)"
  using arctan_double [of "1 / 3"] by (simp add: power2_eq_square)

lemma angle_half_raised:
  assumes "lm_x a = lm_x b" "lm_y b < lm_y a"
    and "lm_x b < lm_x c" "lm_y c - lm_y b = 3 / 4 * (lm_x c - lm_x b)"
  shows "calculateAngle a b c = 90 - 2 * restAngle"
proof -
  have ya: "atan2 (lm_y a - lm_y b) (lm_x a - lm_x b) = pi / 2"
    using assms(1,2) by (simp add: atan2_def)
  have q: "(lm_y c - lm_y b) / (lm_x c - lm_x b) = 3 / 4"
    using assms(3,4) by (simp add: field_simps)
  have "atan2 (lm_y c - lm_y b) (lm_x c - lm_x b)
          = arctan ((lm_y c - lm_y b) / (lm_x c - lm_x b))"
    using assms(3) by (simp add: atan2_def)
  then have yc: "atan2 (lm_y c - lm_y b) (lm_x c - lm_x b) = 2 * arctan (1 / 3)"
    unfolding q arctan_three_quarters .
  define r where "r = pi / 2 - 2 * arctan (1 / 3)"
  have r: "0 < r" "r < pi / 2"
    using arctan_third pi_gt_zero unfolding r_def by linarith+
  have d: "r * 180 / pi = 90 - 2 * restAngle"
    using pi_gt_zero by (simp add: r_def restAngle_def field_simps)
  have "r * 180 < 180 * pi" using r pi_gt_zero by linarith
  then have "r * 180 / pi < 180"
    using pi_gt_zero by (simp add: pos_divide_less_eq)
  then have le: "\<not> r * 180 / pi > 180"
    by simp
  have pos: "0 \<le> r * 180 / pi" using r(1) pi_gt_zero by simp
  have "atan2 (lm_y c - lm_y b) (lm_x c - lm_x b)
          - atan2 (lm_y a - lm_y b) (lm_x a - lm_x b) = - r"
    by (simp add: ya yc r_def)
  then have "calculateAngle a b c = r * 180 / pi"
    unfolding calculateAngle_def Let_def using pos le by (simp add: abs_if)
  then show ?thesis by (simp add: d)
qed

lemma gap_angle_bounds: "45 < 90 - 2 * restAngle \<and> 90 - 2 * restAngle \<le> 60"
  using restAngle_bounds by linarith

lemma runFormChecks_not_moving: "runFormChecks lms sd False cs acc = acc"
  by (simp add: runFormChecks_last checkFails_def Let_def)

lemma gapFrame_analysis:
  "onResults noExerciseLoaded 1001000 (Some gapFrame) (startExercise initialSession)
   = analyzeExerciseForm True 1001000 (90 - 2 * restAngle) gapFrame defaultExercise Left
       ((startExercise initialSession)\<lparr>armAngle := round (90 - 2 * restAngle)\<rparr>)"
proof -
  have d: "detectActiveLeg (cl_detectedArm noExerciseLoaded) gapFrame = Some Left"
    by (simp add: upper_body_leg_detection gapFrame_def noExerciseLoaded_def)
  have p: "gapFrame 23 = Some (pt 0.6 0.8 0.9)" "gapFrame 11 = Some (pt 0.6 0.4 0.9)"
    "gapFrame 13 = Some (pt 0.8 0.55 0.9)"
    by (simp_all add: gapFrame_def)
  have "analyzeLegExercise noExerciseLoaded 1001000 gapFrame (startExercise initialSession)
        = Some (analyzeExerciseForm True 1001000 (90 - 2 * restAngle) gapFrame defaultExercise
            Left ((startExercise initialSession)\<lparr>armAngle := round (90 - 2 * restAngle)\<rparr>))"
    unfolding analyzeLegExercise_def noExercise_inUse d Let_def default_points
      adjustLegPoints_def analyzeAt_def
    by (simp add: landmarkAt_def elemAt_def p angle_half_raised pt_def noExerciseLoaded_def)
  then show ?thesis
    by (simp add: onResults_def noExercise_inUse default_bodyPart)
qed

lemma gapFrame_feedback:
  "feedback (onResults noExerciseLoaded 1001000 (Some gapFrame) (startExercise initialSession))
     = emojiChart @ '' Start your movement''"
proof -
  have ph: "phaseState defaultExercise (90 - 2 * restAngle) = ''ready''"
    using gap_angle_bounds
    by (simp add: lifting_phaseState default_category default_fields inRange_def)
  have cl: "fst (classifyPhase defaultExercise (90 - 2 * restAngle) n)
              = emojiChart @ '' Start your movement''" for n
    using gap_angle_bounds
    by (simp add: classifyPhase_def Let_def isInOptimalPeak_def default_category default_fields
          inRange_def default_inStart)
  show ?thesis
    unfolding gapFrame_analysis analyze_feedback ph default_gerund
    by (simp add: runFormChecks_not_moving cl)
qed

text \<open>
  Claim C10.  With no generated exercise loaded the frame callback analyses every frame
  with the built-in default exercise, whose thresholds 60, 75, 45 are not in ascending
  order, and uses them as they are: the correction, which belongs to the validation of
  generated exercises, would turn them into 45, 60, 75 (and the whole validation into 30,
  60, 90).  The state that the analysis records for the default exercise is the movement
  state above 60 degrees, the uncorrected \<open>liftingMin\<close>, where the corrected thresholds
  would give it above 45; so the frame \<open>gapFrame\<close>, whose shoulder angle lies between 45
  and 60 degrees, is answered by the callback with the message of the \<open>ready\<close> state.
\<close>

theorem default_thresholds_uncorrected:
  "exerciseInUse \<lparr>cl_exerciseStarted = st, cl_detectedArm = d, cl_currentExercise = None\<rparr>
     = defaultExercise
   \<and> thresholds defaultExercise = \<lparr>liftingMin = 60, loweringMax = 75, restMax = 45\<rparr>
   \<and> \<not> (liftingMin (thresholds defaultExercise) < loweringMax (thresholds defaultExercise)
        \<and> loweringMax (thresholds defaultExercise) < restMax (thresholds defaultExercise))
   \<and> thresholdsInvalid (thresholds defaultExercise)
   \<and> correctThresholds (thresholds defaultExercise)
       = \<lparr>liftingMin = 45, loweringMax = 60, restMax = 75\<rparr>
   \<and> thresholds (validateAndCorrectExercise defaultExercise)
       = \<lparr>liftingMin = 30, loweringMax = 60, restMax = 90\<rparr>
   \<and> phaseState defaultExercise 50 = ''ready''
   \<and> phaseState (defaultExercise\<lparr>thresholds := correctThresholds (thresholds defaultExercise)\<rparr>) 50
       = ''lifting''
   \<and> onResults \<lparr>cl_exerciseStarted = st, cl_detectedArm = d, cl_currentExercise = None\<rparr> t
        (Some lms) s
      = (case detectActiveLeg d lms of
           None \<Rightarrow> s
         | Some detectedLegLocal \<Rightarrow>
             analyzeAt \<lparr>cl_exerciseStarted = st, cl_detectedArm = d, cl_currentExercise = None\<rparr>
               t lms defaultExercise detectedLegLocal
               (adjustLegPoints detectedLegLocal (anglePoints defaultExercise)) s)
   \<and> lastStateRef (analyzeExerciseForm True t angle lms defaultExercise sd s)
       = (if (90 \<le> angle \<and> angle \<le> 120) \<or> 60 < angle then ''lifting'' else ''ready'')
   \<and> lastStateRef (analyzeExerciseForm True t angle lms
         (defaultExercise\<lparr>thresholds := correctThresholds (thresholds defaultExercise)\<rparr>) sd s)
       = (if (90 \<le> angle \<and> angle \<le> 120) \<or> 45 < angle then ''lifting'' else ''ready'')
   \<and> onResults noExerciseLoaded 1001000 (Some gapFrame) (startExercise initialSession)
       = analyzeExerciseForm True 1001000 (90 - 2 * restAngle) gapFrame defaultExercise Left
           ((startExercise initialSession)\<lparr>armAngle := round (90 - 2 * restAngle)\<rparr>)
   \<and> 45 < 90 - 2 * restAngle \<and> 90 - 2 * restAngle \<le> 60
   \<and> feedback (onResults noExerciseLoaded 1001000 (Some gapFrame)
        (startExercise initialSession)) = emojiChart @ '' Start your movement''
   \<and> lastStateRef (onResults noExerciseLoaded 1001000 (Some gapFrame)
        (startExercise initialSession)) = ''ready''"
proof -
  have a: "exerciseInUse \<lparr>cl_exerciseStarted = st, cl_detectedArm = d, cl_currentExercise = None\<rparr>
             = defaultExercise"
    by (simp add: exerciseInUse_def)
  have b: "\<not> (liftingMin (thresholds defaultExercise) < loweringMax (thresholds defaultExercise)
             \<and> loweringMax (thresholds defaultExercise) < restMax (thresholds defaultExercise))"
    by (simp add: default_fields)
  have c: "thresholdsInvalid (thresholds defaultExercise)"
    by (simp add: default_fields thresholdsInvalid_def)
  have e: "lastStateRef (onResults noExerciseLoaded 1001000 (Some gapFrame)
        (startExercise initialSession)) = ''ready''"
    unfolding gapFrame_analysis default_lastState using gap_angle_bounds by simp
  show ?thesis
    using a b c e default_fields(3) default_corrected default_validated_thresholds
      default_phase_50 default_corrected_phase_50
      onResults_default [of st d t lms s]
      default_lastState [of t angle lms sd s] default_corrected_lastState [of t angle lms sd s]
      gapFrame_analysis gap_angle_bounds gapFrame_feedback
    by blast
qed

end
